theory Spec2Isabelle
  imports Complex_Main
begin

section \<open>Donation ledger of poor-kids-donation: the data model\<close>

text \<open>
  The development embeds \<^verbatim>\<open>backend/src/models/Donation.ts\<close>,
  \<^verbatim>\<open>backend/src/models/Campaign.ts\<close> and the handlers of
  \<^verbatim>\<open>backend/src/controllers/donationController.ts\<close>.

  Conventions of the embedding.
  \<^item> A JavaScript \<^verbatim>\<open>number\<close> is a \<^typ>\<open>real\<close>. The arithmetic of \<^verbatim>\<open>calculateFees\<close>
    is that of IEEE binary64: every operation is the exact one followed by rounding to
    the nearest double (\<open>fl\<close> below), and a decimal literal is the nearest double.
    \<^verbatim>\<open>Math.round\<close> is \<open>\<lfloor>x + 1/2\<rfloor>\<close> (nearest integer, ties upwards). The
    \<^verbatim>\<open>$inc\<close> of the database is an exact addition, and the amounts of the scenarios are
    the decimal values.
  \<^item> A Mongo \<^verbatim>\<open>ObjectId\<close> is a \<^typ>\<open>nat\<close>; an absent reference is \<open>None\<close>.
  \<^item> An optional string that the source only tests for truthiness is a \<^typ>\<open>string\<close>,
    the empty string standing for the absent value.
  \<^item> \<^verbatim>\<open>new Date()\<close> and \<^verbatim>\<open>Math.random().toString(36)\<close> are read from an
    environment passed to every operation.
  \<^item> The database is a record of three maps (the collections). Every awaited
    write of a handler is one function on that record, and a handler is the list of
    its writes in program order.
  \<^item> The validators of the donation schema run when a document is created
    (\<open>Donation_validate\<close>), before the pre-save hook. The save of a stored document that a
    handler has updated (\<open>Donation_save\<close>) is the save of a document that passes them.
\<close>

datatype donation_status = Pending | Processing | Completed | Failed | Refunded | Cancelled

record js_date =
  getTime :: nat
  getFullYear :: nat
  getMonth :: nat
  getDate :: nat

record env =
  now :: js_date
  random36 :: string

record fees =
  platformFee :: real
  paymentProcessingFee :: real
  totalFees :: real

record receipt =
  receiptNumber :: string
  emailSent :: bool

record refund =
  refundId :: string
  refundAmount :: real
  refundReason :: string
  refundedAt :: js_date
  refundedBy :: nat

record dedication =
  dedication_name :: string
  dedication_email :: string
  dedication_message :: string

record donation =
  donation_id :: nat
  donor :: "nat option"
  campaign :: nat
  amount :: real
  currency :: string
  paymentMethod :: string
  paymentIntentId :: string
  transactionId :: string
  status :: donation_status
  isAnonymous :: bool
  message :: string
  dedicatedTo :: "dedication option"
  fees :: fees
  netAmount :: real
  receipt :: receipt
  refund :: "refund option"
  completedAt :: "js_date option"
  createdAt :: nat

section \<open>Fee calculation\<close>

text \<open>
  Binary64 arithmetic. \<open>binade n x\<close> is the exponent \<open>e\<close> with \<open>2\<^sup>e \<le> x < 2\<^sup>e\<^sup>+\<^sup>1\<close> of a
  positive \<open>x\<close>, found in at most \<open>n\<close> halvings or doublings; 1100 steps cover every
  normal double. \<open>ulp x\<close> is the distance of the doubles around \<open>x\<close> (53 significant
  bits), and \<open>fl x\<close> rounds \<open>x\<close> to the nearest double, ties to the even significand.
  Overflow and subnormal numbers are left out: the amounts of the schema lie between 1
  and 100000.
\<close>

fun binade :: "nat \<Rightarrow> real \<Rightarrow> int" where
  "binade 0 x = 0"
| "binade (Suc n) x =
     (if 2 \<le> x then binade n (x / 2) + 1
      else if x < 1 then binade n (x * 2) - 1
      else 0)"

definition ulp :: "real \<Rightarrow> real" where
  "ulp x = (let e = binade 1100 \<bar>x\<bar>
            in if 52 \<le> e then 2 ^ nat (e - 52) else 1 / 2 ^ nat (52 - e))"

definition round_half_even :: "real \<Rightarrow> int" where
  "round_half_even q =
     (let f = \<lfloor>q\<rfloor>
      in if q - of_int f < 1 / 2 then f
         else if 1 / 2 < q - of_int f then f + 1
         else if even f then f else f + 1)"

definition fl :: "real \<Rightarrow> real" where
  "fl x = (if x = 0 then 0 else of_int (round_half_even (x / ulp x)) * ulp x)"

text \<open>The four operations of JavaScript on numbers.\<close>

definition fmul :: "real \<Rightarrow> real \<Rightarrow> real" where
  "fmul a b = fl (a * b)"

definition fadd :: "real \<Rightarrow> real \<Rightarrow> real" where
  "fadd a b = fl (a + b)"

definition fsub :: "real \<Rightarrow> real \<Rightarrow> real" where
  "fsub a b = fl (a - b)"

definition fdiv :: "real \<Rightarrow> real \<Rightarrow> real" where
  "fdiv a b = fl (a / b)"

definition Math_round :: "real \<Rightarrow> int" where
  "Math_round x = \<lfloor>x + 1 / 2\<rfloor>"

text \<open>The idiom \<^verbatim>\<open>Math.round(x * 100) / 100\<close>.\<close>

definition round2 :: "real \<Rightarrow> real" where
  "round2 x = fdiv (of_int (Math_round (fmul x 100))) 100"

text \<open>
  \<^verbatim>\<open>calculateFees\<close>: the platform fee is 2.5 percent; the processing fee follows the
  \<^verbatim>\<open>switch\<close> on the payment method, with its \<^verbatim>\<open>default\<close> branch.
\<close>

definition paymentProcessingFee_of :: "string \<Rightarrow> real \<Rightarrow> real" where
  "paymentProcessingFee_of pm a =
     (if pm = ''stripe'' then round2 (fadd (fmul a (fl 0.029)) (fl 0.30))
      else if pm = ''paypal'' then round2 (fadd (fmul a (fl 0.0349)) (fl 0.49))
      else if pm = ''bank_transfer'' then 1.00
      else if pm = ''crypto'' then round2 (fmul a (fl 0.01))
      else 0)"

definition calculateFees :: "donation \<Rightarrow> donation" where
  "calculateFees d =
     (let a = amount d;
          pf = round2 (fmul a (fl 0.025));
          ppf = paymentProcessingFee_of (paymentMethod d) a;
          tf = round2 (fadd pf ppf)
      in d\<lparr>fees := \<lparr>platformFee = pf, paymentProcessingFee = ppf, totalFees = tf\<rparr>,
            netAmount := round2 (fsub a tf)\<rparr>)"

text \<open>
  The test of the sum identity, \<^verbatim>\<open>netAmount + platformFee + processingFee\<close>, as
  JavaScript evaluates it.
\<close>

definition fee_sum :: "donation \<Rightarrow> real" where
  "fee_sum d = fadd (fadd (netAmount d) (platformFee (fees d))) (paymentProcessingFee (fees d))"

section \<open>Receipt numbers and the pre-save hook\<close>

definition digit_char :: "nat \<Rightarrow> char" where
  "digit_char n = ''0123456789'' ! n"

text \<open>\<^verbatim>\<open>String(n)\<close> for a natural number; \<open>digit_char\<close> is only used below 10.\<close>

fun string_of_nat :: "nat \<Rightarrow> string" where
  "string_of_nat n =
     (if n < 10 then [digit_char n]
      else string_of_nat (n div 10) @ [digit_char (n mod 10)])"

declare string_of_nat.simps [simp del]

text \<open>\<^verbatim>\<open>s.padStart(2, '0')\<close>.\<close>

definition padStart2 :: "string \<Rightarrow> string" where
  "padStart2 s = replicate (2 - length s) CHR ''0'' @ s"

definition toUpperCase_char :: "char \<Rightarrow> char" where
  "toUpperCase_char c =
     (let n = (of_char c :: nat)
      in if 97 \<le> n \<and> n \<le> 122 then char_of (n - 32) else c)"

definition toUpperCase :: "string \<Rightarrow> string" where
  "toUpperCase s = map toUpperCase_char s"

text \<open>\<^verbatim>\<open>s.substr(2, 6)\<close>: at most six characters from index 2.\<close>

definition substr_2_6 :: "string \<Rightarrow> string" where
  "substr_2_6 s = take 6 (drop 2 s)"

definition generateReceiptNumber :: "env \<Rightarrow> string" where
  "generateReceiptNumber e =
     (let date = now e;
          year = string_of_nat (getFullYear date);
          month = padStart2 (string_of_nat (getMonth date + 1));
          day = padStart2 (string_of_nat (getDate date));
          random = toUpperCase (substr_2_6 (random36 e))
      in ''PKD-'' @ year @ month @ day @ ''-'' @ random)"

text \<open>
  The \<^verbatim>\<open>pre('save')\<close> hook: a receipt number is generated when the document has
  none, and the fees are calculated when the total fee is zero.
\<close>

definition pre_save :: "env \<Rightarrow> donation \<Rightarrow> donation" where
  "pre_save e d =
     (let d1 = (if receiptNumber (receipt d) = []
                then d\<lparr>receipt := (receipt d)\<lparr>receiptNumber := generateReceiptNumber e\<rparr>\<rparr>
                else d)
      in if totalFees (fees d1) = 0 then calculateFees d1 else d1)"

section \<open>The public projection\<close>

datatype donor_view = DonorName string | DonorRef "nat option"

record public_info =
  pi_id :: nat
  pi_amount :: "real option"
  pi_formattedAmount :: "string option"
  pi_donor :: donor_view
  pi_message :: string
  pi_dedicatedTo :: "dedication option"
  pi_createdAt :: nat

text \<open>
  The virtual \<^verbatim>\<open>formattedAmount\<close> calls \<^verbatim>\<open>Intl.NumberFormat\<close>, a library function of
  the currency and the amount; it is the parameter \<open>fmt\<close>.
\<close>

definition formattedAmount :: "(string \<Rightarrow> real \<Rightarrow> string) \<Rightarrow> donation \<Rightarrow> string" where
  "formattedAmount fmt d = fmt (currency d) (amount d)"

definition getPublicInfo :: "(string \<Rightarrow> real \<Rightarrow> string) \<Rightarrow> donation \<Rightarrow> public_info" where
  "getPublicInfo fmt d =
     \<lparr>pi_id = donation_id d,
      pi_amount = (if isAnonymous d then None else Some (amount d)),
      pi_formattedAmount = (if isAnonymous d then None else Some (formattedAmount fmt d)),
      pi_donor = (if isAnonymous d then DonorName ''Anonymous'' else DonorRef (donor d)),
      pi_message = message d,
      pi_dedicatedTo = dedicatedTo d,
      pi_createdAt = createdAt d\<rparr>"

section \<open>The store and its atomic writes\<close>

datatype campaign_status = Draft | Active | Paused | CampaignCompleted | CampaignCancelled

record campaign =
  goalAmount :: real
  currentAmount :: real
  donorCount :: int
  campaign_status :: campaign_status
  campaign_isActive :: bool

record donationStats =
  totalDonated :: real
  donationCount :: int
  lastDonation :: "js_date option"

text \<open>The donation statistics are the only part of the user schema that the ledger touches.\<close>

record user =
  donationStats :: donationStats

record store =
  donations :: "nat \<rightharpoonup> donation"
  campaigns :: "nat \<rightharpoonup> campaign"
  users :: "nat \<rightharpoonup> user"

text \<open>
  \<^verbatim>\<open>Campaign.findByIdAndUpdate(id, { $inc: { currentAmount: x } })\<close>. An update by
  id changes nothing when no document has the id, and it does not run the
  \<^verbatim>\<open>pre('save')\<close> hook of the campaign.
\<close>

definition Campaign_inc_currentAmount :: "nat \<Rightarrow> real \<Rightarrow> store \<Rightarrow> store" where
  "Campaign_inc_currentAmount cid x s =
     (case campaigns s cid of
        None \<Rightarrow> s
      | Some c \<Rightarrow> s\<lparr>campaigns := (campaigns s)(cid \<mapsto> c\<lparr>currentAmount := currentAmount c + x\<rparr>)\<rparr>)"

text \<open>\<^verbatim>\<open>incrementDonorCount\<close> of the campaign with id \<open>cid\<close>: \<^verbatim>\<open>$inc: { donorCount: 1 }\<close>.\<close>

definition incrementDonorCount :: "nat \<Rightarrow> store \<Rightarrow> store" where
  "incrementDonorCount cid s =
     (case campaigns s cid of
        None \<Rightarrow> s
      | Some c \<Rightarrow> s\<lparr>campaigns := (campaigns s)(cid \<mapsto> c\<lparr>donorCount := donorCount c + 1\<rparr>)\<rparr>)"

text \<open>
  The user update of the model methods: \<^verbatim>\<open>$inc\<close> on
  \<^verbatim>\<open>donationStats.totalDonated\<close> and \<^verbatim>\<open>donationStats.donationCount\<close>, and an optional
  \<^verbatim>\<open>$set\<close> of \<^verbatim>\<open>donationStats.lastDonation\<close>. The id is \<^verbatim>\<open>this.donor\<close>, which may be
  absent.
\<close>

definition User_inc_donationStats ::
  "nat option \<Rightarrow> real \<Rightarrow> int \<Rightarrow> js_date option \<Rightarrow> store \<Rightarrow> store" where
  "User_inc_donationStats uid x k lastD s =
     (case uid of
        None \<Rightarrow> s
      | Some u \<Rightarrow>
          (case users s u of
             None \<Rightarrow> s
           | Some usr \<Rightarrow>
               (let st = donationStats usr;
                    st' = st\<lparr>totalDonated := totalDonated st + x,
                              donationCount := donationCount st + k,
                              lastDonation := (case lastD of None \<Rightarrow> lastDonation st
                                               | Some t \<Rightarrow> Some t)\<rparr>
                in s\<lparr>users := (users s)(u \<mapsto> usr\<lparr>donationStats := st'\<rparr>)\<rparr>)))"

text \<open>
  The user update of the controller,
  \<^verbatim>\<open>User.findByIdAndUpdate(u, { $inc: { totalDonated: x, donationCount: k } })\<close>. The
  user schema has no path \<^verbatim>\<open>totalDonated\<close> or \<^verbatim>\<open>donationCount\<close> at its top level (they
  are under \<^verbatim>\<open>donationStats\<close>), and the schema is strict: both keys are dropped from the
  update, which then changes no field of the user.
\<close>

definition User_inc_top :: "nat \<Rightarrow> real \<Rightarrow> int \<Rightarrow> store \<Rightarrow> store" where
  "User_inc_top u x k s = s"

text \<open>\<^verbatim>\<open>doc.save()\<close>: the pre-save hook runs, then the document is stored under its id.\<close>

definition Donation_save :: "env \<Rightarrow> donation \<Rightarrow> store \<Rightarrow> store" where
  "Donation_save e d s = s\<lparr>donations := (donations s)(donation_id d \<mapsto> pre_save e d)\<rparr>"

text \<open>
  A handler awaits its writes one after the other. \<open>visible_states\<close> lists the store
  before the first write and after each write; \<open>apply_writes\<close> is the store after the
  last one.
\<close>

fun visible_states :: "store \<Rightarrow> (store \<Rightarrow> store) list \<Rightarrow> store list" where
  "visible_states s [] = [s]"
| "visible_states s (w # ws) = s # visible_states (w s) ws"

definition apply_writes :: "store \<Rightarrow> (store \<Rightarrow> store) list \<Rightarrow> store" where
  "apply_writes s ws = foldl (\<lambda>t w. w t) s ws"

section \<open>The methods of the donation model\<close>

text \<open>
  \<^verbatim>\<open>markAsCompleted\<close>: the status is set on the document; the campaign is incremented by
  the net amount, the donor's statistics by the gross amount; then the document is saved.
\<close>

definition markAsCompleted_writes :: "env \<Rightarrow> donation \<Rightarrow> (store \<Rightarrow> store) list" where
  "markAsCompleted_writes e d =
     (let d' = d\<lparr>status := Completed\<rparr>
      in [Campaign_inc_currentAmount (campaign d') (netAmount d'),
          User_inc_donationStats (donor d') (amount d') 1 (Some (now e)),
          Donation_save e d'])"

definition markAsCompleted :: "env \<Rightarrow> donation \<Rightarrow> store \<Rightarrow> store" where
  "markAsCompleted e d s = apply_writes s (markAsCompleted_writes e d)"

text \<open>\<^verbatim>\<open>processRefund(amount, reason, refundedBy)\<close>.\<close>

definition processRefund_writes ::
  "env \<Rightarrow> real \<Rightarrow> string \<Rightarrow> nat \<Rightarrow> donation \<Rightarrow> (store \<Rightarrow> store) list" where
  "processRefund_writes e a reason admin d =
     (let d' = d\<lparr>status := Refunded,
                  refund := Some \<lparr>refundId = ''refund_'' @ string_of_nat (getTime (now e)),
                                  refundAmount = a,
                                  refundReason = reason,
                                  refundedAt = now e,
                                  refundedBy = admin\<rparr>\<rparr>
      in [Campaign_inc_currentAmount (campaign d') (- a),
          User_inc_donationStats (donor d') (- a) (- 1) None,
          Donation_save e d'])"

definition processRefund :: "env \<Rightarrow> real \<Rightarrow> string \<Rightarrow> nat \<Rightarrow> donation \<Rightarrow> store \<Rightarrow> store" where
  "processRefund e a reason admin d s = apply_writes s (processRefund_writes e a reason admin d)"

section \<open>The handlers of the donation controller\<close>

text \<open>
  A handler either passes an error to \<^verbatim>\<open>next\<close> or answers with the donation; it returns
  that together with the store it leaves. The errors are the \<^verbatim>\<open>AppError\<close> of the handler
  (message, HTTP status), the validation error of the schema and the duplicate-key error
  of a unique index.
\<close>

datatype app_error = AppError string nat | ValidationError | DuplicateKeyError

type_synonym response = "(app_error + donation) \<times> store"

record status_request =
  req_status :: donation_status
  req_paymentIntentId :: string
  req_transactionId :: string

text \<open>The assignments of \<^verbatim>\<open>updateDonationStatus\<close> on the loaded document.\<close>

definition updateDonationStatus_doc :: "env \<Rightarrow> status_request \<Rightarrow> donation \<Rightarrow> donation" where
  "updateDonationStatus_doc e r d =
     (let d1 = d\<lparr>status := req_status r\<rparr>;
          d2 = (if req_paymentIntentId r \<noteq> [] then d1\<lparr>paymentIntentId := req_paymentIntentId r\<rparr>
                else d1);
          d3 = (if req_transactionId r \<noteq> [] then d2\<lparr>transactionId := req_transactionId r\<rparr>
                else d2)
      in if req_status r = Completed then d3\<lparr>completedAt := Some (now e)\<rparr> else d3)"

definition updateDonationStatus_writes ::
  "env \<Rightarrow> status_request \<Rightarrow> donation \<Rightarrow> (store \<Rightarrow> store) list" where
  "updateDonationStatus_writes e r d =
     (let d' = updateDonationStatus_doc e r d
      in (if req_status r = Completed
          then Campaign_inc_currentAmount (campaign d') (amount d') #
               (case donor d' of
                  None \<Rightarrow> []
                | Some u \<Rightarrow> [User_inc_top u (amount d') 1])
          else [])
         @ [Donation_save e d'])"

definition updateDonationStatus :: "env \<Rightarrow> nat \<Rightarrow> status_request \<Rightarrow> store \<Rightarrow> response" where
  "updateDonationStatus e i r s =
     (case donations s i of
        None \<Rightarrow> (Inl (AppError ''Donation not found'' 404), s)
      | Some d \<Rightarrow>
          (let s' = apply_writes s (updateDonationStatus_writes e r d)
           in (Inr (pre_save e (updateDonationStatus_doc e r d)), s')))"

text \<open>
  \<^verbatim>\<open>refundDonation\<close>: \<open>admin\<close> is \<^verbatim>\<open>req.user?._id\<close>. The handler assigns
  \<^verbatim>\<open>status\<close>, \<^verbatim>\<open>refundReason\<close>, \<^verbatim>\<open>refundedAt\<close> and \<^verbatim>\<open>refundedBy\<close>; only \<^verbatim>\<open>status\<close> is
  a path of the schema (the schema keeps a refund under \<^verbatim>\<open>refund\<close>), so only the status
  becomes part of the document. The document is saved first, then the campaign and the
  donor are updated with the negated gross amount.
\<close>

definition refundDonation_doc :: "env \<Rightarrow> string \<Rightarrow> nat option \<Rightarrow> donation \<Rightarrow> donation" where
  "refundDonation_doc e reason admin d = d\<lparr>status := Refunded\<rparr>"

definition refundDonation_writes ::
  "env \<Rightarrow> string \<Rightarrow> nat option \<Rightarrow> donation \<Rightarrow> (store \<Rightarrow> store) list" where
  "refundDonation_writes e reason admin d =
     (let d' = refundDonation_doc e reason admin d
      in [Donation_save e d', Campaign_inc_currentAmount (campaign d') (- amount d')]
         @ (case donor d' of
              None \<Rightarrow> []
            | Some u \<Rightarrow> [User_inc_top u (- amount d') (- 1)]))"

definition refundDonation :: "env \<Rightarrow> nat \<Rightarrow> string \<Rightarrow> nat option \<Rightarrow> store \<Rightarrow> response" where
  "refundDonation e i reason admin s =
     (case donations s i of
        None \<Rightarrow> (Inl (AppError ''Donation not found'' 404), s)
      | Some d \<Rightarrow>
          if status d \<noteq> Completed
          then (Inl (AppError ''Only completed donations can be refunded'' 400), s)
          else (Inr (pre_save e (refundDonation_doc e reason admin d)),
                apply_writes s (refundDonation_writes e reason admin d)))"

text \<open>
  The validators of the donation schema. A required string must not be empty. The net
  amount is required as well, but the record always holds a number there; the document
  of \<^verbatim>\<open>createDonation\<close>, which has no net amount, fails already for its missing receipt
  number.
\<close>

definition Donation_validate :: "donation \<Rightarrow> bool" where
  "Donation_validate d \<longleftrightarrow>
     donor d \<noteq> None \<and>
     1 \<le> amount d \<and> amount d \<le> 100000 \<and>
     currency d \<in> set [''USD'', ''EUR'', ''GBP'', ''CAD'', ''AUD'', ''INR'', ''JPY''] \<and>
     paymentMethod d \<in> set [''stripe'', ''paypal'', ''bank_transfer'', ''crypto''] \<and>
     length (message d) \<le> 500 \<and>
     0 \<le> platformFee (fees d) \<and> 0 \<le> paymentProcessingFee (fees d) \<and>
     0 \<le> totalFees (fees d) \<and>
     0 \<le> netAmount d \<and>
     receiptNumber (receipt d) \<noteq> []"

text \<open>The unique index on \<^verbatim>\<open>receipt.receiptNumber\<close>: is the number that of a stored donation?\<close>

definition receiptNumber_taken :: "store \<Rightarrow> string \<Rightarrow> bool" where
  "receiptNumber_taken s n \<longleftrightarrow> (\<exists>j d. donations s j = Some d \<and> receiptNumber (receipt d) = n)"

text \<open>
  \<^verbatim>\<open>Donation.create\<close>: the document is validated, then the pre-save hook runs, then the
  document is inserted unless a unique index rejects it, that on the id or that on the
  receipt number.
\<close>

definition Donation_create :: "env \<Rightarrow> donation \<Rightarrow> store \<Rightarrow> response" where
  "Donation_create e d s =
     (if \<not> Donation_validate d then (Inl ValidationError, s)
      else if donations s (donation_id d) \<noteq> None \<or>
              receiptNumber_taken s (receiptNumber (receipt (pre_save e d)))
      then (Inl DuplicateKeyError, s)
      else (Inr (pre_save e d), Donation_save e d s))"

text \<open>
  \<^verbatim>\<open>createDonation\<close>: \<open>new_id\<close> is the id the database gives the new document, \<open>usr\<close>
  the authenticated user if any. \<open>createDonation_doc\<close> is the document of the handler's
  \<^verbatim>\<open>donationData\<close> with the defaults of the schema; it has neither a net amount nor a
  receipt number.
\<close>

record create_request =
  cr_campaignId :: nat
  cr_amount :: real
  cr_isAnonymous :: bool
  cr_message :: string
  cr_paymentMethod :: string

definition createDonation_doc :: "env \<Rightarrow> nat \<Rightarrow> nat option \<Rightarrow> create_request \<Rightarrow> donation" where
  "createDonation_doc e new_id usr r =
     \<lparr>donation_id = new_id,
      donor = usr,
      campaign = cr_campaignId r,
      amount = cr_amount r,
      currency = ''USD'',
      paymentMethod = (if cr_paymentMethod r = [] then ''stripe'' else cr_paymentMethod r),
      paymentIntentId = [],
      transactionId = [],
      status = Pending,
      isAnonymous = cr_isAnonymous r,
      message = cr_message r,
      dedicatedTo = None,
      fees = \<lparr>platformFee = 0, paymentProcessingFee = 0, totalFees = 0\<rparr>,
      netAmount = 0,
      receipt = \<lparr>receiptNumber = [], emailSent = False\<rparr>,
      refund = None,
      completedAt = None,
      createdAt = getTime (now e)\<rparr>"

definition createDonation ::
  "env \<Rightarrow> nat \<Rightarrow> nat option \<Rightarrow> create_request \<Rightarrow> store \<Rightarrow> response" where
  "createDonation e new_id usr r s =
     (case campaigns s (cr_campaignId r) of
        None \<Rightarrow> (Inl (AppError ''Campaign not found'' 404), s)
      | Some c \<Rightarrow>
          if \<not> campaign_isActive c \<or> campaign_status c \<noteq> Active
          then (Inl (AppError ''Campaign is not accepting donations'' 400), s)
          else Donation_create e (createDonation_doc e new_id usr r) s)"

section \<open>Concrete data for the scenarios\<close>

text \<open>
  2 November 2026 (\<^verbatim>\<open>getMonth\<close> counts from 0), and a value of
  \<^verbatim>\<open>Math.random().toString(36)\<close>.
\<close>

definition env0 :: env where
  "env0 = \<lparr>now = \<lparr>getTime = 1793577600000, getFullYear = 2026, getMonth = 10, getDate = 2\<rparr>,
           random36 = ''0.4fzyo82mvyr''\<rparr>"

text \<open>A campaign with id 7 that accepts donations, and a user with id 3.\<close>

definition campaign0 :: campaign where
  "campaign0 = \<lparr>goalAmount = 1000, currentAmount = 0, donorCount = 0,
                 campaign_status = Active, campaign_isActive = True\<rparr>"

definition user0 :: user where
  "user0 = \<lparr>donationStats = \<lparr>totalDonated = 0, donationCount = 0, lastDonation = None\<rparr>\<rparr>"

definition store0 :: store where
  "store0 = \<lparr>donations = Map.empty, campaigns = [7 \<mapsto> campaign0], users = [3 \<mapsto> user0]\<rparr>"

text \<open>Scenario 1: user 3 gives 100.00 by card (\<^verbatim>\<open>stripe\<close>) to campaign 7.\<close>

definition request_100 :: create_request where
  "request_100 = \<lparr>cr_campaignId = 7, cr_amount = 100, cr_isAnonymous = False,
                   cr_message = [], cr_paymentMethod = ''stripe''\<rparr>"

text \<open>The document that \<^verbatim>\<open>createDonation\<close> builds for scenario 1.\<close>

definition doc_100 :: donation where
  "doc_100 = createDonation_doc env0 5 (Some 3) request_100"

text \<open>
  Donation 5 of scenario 1 as a stored, pending document: the document above with the
  fees and the net amount of the scenario (platform fee 2.50, processing fee 3.20, net
  amount 94.30) and a receipt number. \<open>store1\<close> holds it.
\<close>

definition donation1 :: donation where
  "donation1 =
     doc_100\<lparr>fees := \<lparr>platformFee = 2.5, paymentProcessingFee = 3.2, totalFees = 5.7\<rparr>,
             netAmount := 94.3,
             receipt := \<lparr>receiptNumber = ''PKD-20261102-4FZYO8'', emailSent = False\<rparr>\<rparr>"

definition store1 :: store where
  "store1 = store0\<lparr>donations := [5 \<mapsto> donation1]\<rparr>"

text \<open>The payment processor reports success for donation 5 with reference \<^verbatim>\<open>pi_1\<close>.\<close>

definition payment_succeeded :: status_request where
  "payment_succeeded = \<lparr>req_status = Completed, req_paymentIntentId = ''pi_1'',
                         req_transactionId = []\<rparr>"

text \<open>The same payment event is delivered twice.\<close>

definition store2 :: store where
  "store2 = snd (updateDonationStatus env0 5 payment_succeeded store1)"

definition store3 :: store where
  "store3 = snd (updateDonationStatus env0 5 payment_succeeded store2)"

text \<open>Scenario 4 starts from donation 5 completed by the model method.\<close>

definition donation1_completed :: donation where
  "donation1_completed = donation1\<lparr>status := Completed\<rparr>"

definition store_completed :: store where
  "store_completed = markAsCompleted env0 donation1 store1"

text \<open>An administrator (user 9) refunds donation 5 after its completion by the handler.\<close>

definition store_refunded :: store where
  "store_refunded = snd (refundDonation env0 5 ''duplicate charge'' (Some 9) store2)"

text \<open>A status update that asks for \<^verbatim>\<open>pending\<close>.\<close>

definition reopen_request :: status_request where
  "reopen_request = \<lparr>req_status = Pending, req_paymentIntentId = [], req_transactionId = []\<rparr>"


text \<open>Donation 5 as stored after the first delivery of the payment event.\<close>

definition donation2 :: donation where
  "donation2 = pre_save env0 (updateDonationStatus_doc env0 payment_succeeded donation1)"

text \<open>The stores that are visible while the payment event of scenario 1 is handled.\<close>

definition completion_trace :: "store list" where
  "completion_trace = visible_states store1 (updateDonationStatus_writes env0 payment_succeeded donation1)"

text \<open>Donation 5 as stored after the refund by the administrator.\<close>

definition donation3 :: donation where
  "donation3 = pre_save env0 (refundDonation_doc env0 ''duplicate charge'' (Some 9) donation2)"

text \<open>
  What the unique index on the receipt number keeps true of the stored donations, and
  what validation and the keying by id keep true of them.
\<close>

definition receiptNumbers_unique :: "store \<Rightarrow> bool" where
  "receiptNumbers_unique s \<longleftrightarrow>
     (\<forall>i j d d'. donations s i = Some d \<and> donations s j = Some d' \<and>
                 receiptNumber (receipt d) = receiptNumber (receipt d') \<longrightarrow> i = j)"

definition stored_with_receipts :: "store \<Rightarrow> bool" where
  "stored_with_receipts s \<longleftrightarrow>
     (\<forall>i d. donations s i = Some d \<longrightarrow> donation_id d = i \<and> receiptNumber (receipt d) \<noteq> [])"

text \<open>A gross amount of 5.02, as the number that JavaScript reads from the request.\<close>

definition doc_502 :: donation where
  "doc_502 = doc_100\<lparr>amount := fl 5.02\<rparr>"

section \<open>Fees: determinism and the sum identity\<close>

lemma binade_unfold:
  "0 < n \<Longrightarrow> binade n x =
     (if 2 \<le> x then binade (n - 1) (x / 2) + 1
      else if x < 1 then binade (n - 1) (x * 2) - 1
      else 0)"
  by (cases n) simp_all

text \<open>With enough steps \<open>binade\<close> finds the binade of a positive number.\<close>

lemma binade_sound:
  "0 < x \<Longrightarrow> 1 / 2 ^ n \<le> x \<Longrightarrow> x < 2 ^ n \<Longrightarrow>
   2 powi (binade n x) \<le> x \<and> x < 2 powi (binade n x + 1)"
proof (induction n arbitrary: x)
  case 0
  then show ?case by simp
next
  case (Suc n)
  have up: "2 powi (b + 1) = 2 powi b * (2::real)" for b :: int
    by (simp add: power_int_add)
  have down: "2 powi (b - 1) = 2 powi b / (2::real)" for b :: int
    by (simp add: power_int_diff)
  show ?case
  proof (cases "2 \<le> x")
    case True
    have "2 powi (binade n (x / 2)) \<le> x / 2 \<and> x / 2 < 2 powi (binade n (x / 2) + 1)"
    proof (rule Suc.IH)
      show "0 < x / 2" using Suc.prems by simp
      have "1 / 2 ^ n \<le> (1::real)" by simp
      then show "1 / 2 ^ n \<le> x / 2" using True by linarith
      show "x / 2 < 2 ^ n" using Suc.prems by simp
    qed
    then have "2 powi (binade n (x / 2) + 1) \<le> x \<and> x < 2 powi (binade n (x / 2) + 1 + 1)"
      by (simp only: up) linarith
    then show ?thesis
      using True by simp
  next
    case False
    show ?thesis
    proof (cases "x < 1")
      case True
      show ?thesis
      proof (cases n)
        case 0
        have "1 / 2 \<le> x" using Suc.prems(2) 0 by simp
        then show ?thesis
          using True False 0 by (simp add: power_int_minus)
      next
        case (Suc m)
        have "2 powi (binade n (x * 2)) \<le> x * 2 \<and> x * 2 < 2 powi (binade n (x * 2) + 1)"
        proof (rule Suc.IH)
          show "0 < x * 2" using Suc.prems by simp
          show "1 / 2 ^ n \<le> x * 2" using Suc.prems(2) by (simp add: field_simps)
          have "(2::real) \<le> 2 ^ n" using Suc by simp
          then show "x * 2 < 2 ^ n" using True by linarith
        qed
        then have "2 powi (binade n (x * 2) - 1) \<le> x \<and> x < 2 powi (binade n (x * 2) - 1 + 1)"
          by (simp only: up down diff_add_cancel) linarith
        then show ?thesis
          using True False by simp
      qed
    next
      case False
      then show ?thesis
        using \<open>\<not> 2 \<le> x\<close> by simp
    qed
  qed
qed

lemmas fl_eval = fl_def ulp_def round_half_even_def binade_unfold Let_def
  fmul_def fadd_def fsub_def fdiv_def

lemma calculateFees_fields:
  "platformFee (fees (calculateFees d)) = round2 (fmul (amount d) (fl 0.025))"
  "paymentProcessingFee (fees (calculateFees d)) = paymentProcessingFee_of (paymentMethod d) (amount d)"
  "totalFees (fees (calculateFees d)) =
     round2 (fadd (platformFee (fees (calculateFees d))) (paymentProcessingFee (fees (calculateFees d))))"
  "netAmount (calculateFees d) = round2 (fsub (amount d) (totalFees (fees (calculateFees d))))"
  "amount (calculateFees d) = amount d"
  by (simp_all add: calculateFees_def Let_def)

lemma paymentProcessingFee_of_stripe:
  "paymentProcessingFee_of ''stripe'' a = round2 (fadd (fmul a (fl 0.029)) (fl 0.30))"
  by (simp add: paymentProcessingFee_of_def)

lemma fees_100_stripe:
  "round2 (fmul 100 (fl 0.025)) = 2.5"
  "round2 (fadd (fmul 100 (fl 0.029)) (fl 0.30)) = fl 3.2"
  "round2 (fadd 2.5 (fl 3.2)) = fl 5.7"
  "round2 (fsub 100 (fl 5.7)) = fl 94.3"
  "fadd (fadd (fl 94.3) 2.5) (fl 3.2) = 100"
  by (simp_all add: round2_def Math_round_def fl_eval)

lemma fees_502_stripe:
  "round2 (fmul (fl 5.02) (fl 0.025)) = fl 0.13"
  "round2 (fadd (fmul (fl 5.02) (fl 0.029)) (fl 0.30)) = fl 0.45"
  "round2 (fadd (fl 0.13) (fl 0.45)) = fl 0.58"
  "round2 (fsub (fl 5.02) (fl 0.58)) = fl 4.44"
  by (simp_all add: round2_def Math_round_def fl_eval)

lemma sum_502_stripe:
  "fadd (fadd (fl 4.44) (fl 0.13)) (fl 0.45) = 5652017532349973 / 1125899906842624"
  "fl 5.02 = 5652017532349972 / 1125899906842624"
  by (simp_all add: fl_eval)

lemma calculateFees_deterministic:
  assumes "amount d' = amount d" "paymentMethod d' = paymentMethod d"
  shows "fees (calculateFees d') = fees (calculateFees d)"
    and "netAmount (calculateFees d') = netAmount (calculateFees d)"
  using assms by (simp_all add: calculateFees_def Let_def)

lemma calculateFees_100_stripe:
  assumes "amount d = 100" "paymentMethod d = ''stripe''"
  shows "fees (calculateFees d)
           = \<lparr>platformFee = 2.5, paymentProcessingFee = fl 3.2, totalFees = fl 5.7\<rparr>"
    and "netAmount (calculateFees d) = fl 94.3"
    and "fee_sum (calculateFees d) = amount d"
proof -
  have pf: "platformFee (fees (calculateFees d)) = 2.5"
    by (simp only: calculateFees_fields(1) assms fees_100_stripe)
  have ppf: "paymentProcessingFee (fees (calculateFees d)) = fl 3.2"
    by (simp only: calculateFees_fields(2) assms paymentProcessingFee_of_stripe fees_100_stripe)
  have tf: "totalFees (fees (calculateFees d)) = fl 5.7"
    by (simp only: calculateFees_fields(3) pf ppf fees_100_stripe)
  show net: "netAmount (calculateFees d) = fl 94.3"
    by (simp only: calculateFees_fields(4) tf assms fees_100_stripe)
  have "fees (calculateFees d)
          = \<lparr>platformFee = platformFee (fees (calculateFees d)),
              paymentProcessingFee = paymentProcessingFee (fees (calculateFees d)),
              totalFees = totalFees (fees (calculateFees d))\<rparr>"
    by simp
  then show "fees (calculateFees d)
          = \<lparr>platformFee = 2.5, paymentProcessingFee = fl 3.2, totalFees = fl 5.7\<rparr>"
    by (simp only: pf ppf tf)
  show "fee_sum (calculateFees d) = amount d"
    by (simp only: fee_sum_def net pf ppf calculateFees_fields(5) assms fees_100_stripe)
qed

lemma round_half_even_error: "\<bar>of_int (round_half_even q) - q\<bar> \<le> 1 / 2"
proof -
  have "of_int \<lfloor>q\<rfloor> \<le> q" "q < of_int \<lfloor>q\<rfloor> + 1"
    by linarith+
  then show ?thesis
    unfolding round_half_even_def Let_def by auto
qed

lemma binade_nonpos: "x < 2 \<Longrightarrow> binade n x \<le> 0"
proof (induction n arbitrary: x)
  case 0
  then show ?case by simp
next
  case (Suc n)
  show ?case
  proof (cases "x < 1")
    case True
    then have "binade n (x * 2) \<le> 0"
      by (intro Suc.IH) simp
    then show ?thesis using Suc.prems True by simp
  next
    case False
    then show ?thesis using Suc.prems by simp
  qed
qed

lemma ulp_pos: "0 < ulp x"
  by (simp add: ulp_def Let_def)

lemma ulp_small:
  assumes "\<bar>x\<bar> < 2"
  shows "ulp x \<le> 1 / 2 ^ 52"
proof -
  define e where "e = binade 1100 \<bar>x\<bar>"
  have e: "e \<le> 0"
    unfolding e_def using assms by (rule binade_nonpos)
  then have "52 \<le> nat (52 - e)"
    by simp
  then have "(2::real) ^ 52 \<le> 2 ^ nat (52 - e)"
    by (intro power_increasing) simp_all
  then have "1 / 2 ^ nat (52 - e) \<le> 1 / (2::real) ^ 52"
    by (intro divide_left_mono) simp_all
  moreover have "ulp x = 1 / 2 ^ nat (52 - e)"
    using e by (simp add: ulp_def Let_def e_def [symmetric])
  ultimately show ?thesis
    by simp
qed

lemma ulp_large:
  assumes "1 \<le> \<bar>x\<bar>" "\<bar>x\<bar> < 2 ^ 1100"
  shows "ulp x \<le> \<bar>x\<bar> / 2 ^ 52"
proof -
  define e where "e = binade 1100 \<bar>x\<bar>"
  have "1 / 2 ^ 1100 \<le> (1::real)"
    by simp
  then have low: "1 / 2 ^ 1100 \<le> \<bar>x\<bar>"
    using assms(1) by linarith
  have "2 powi e \<le> \<bar>x\<bar>"
    unfolding e_def using binade_sound [of "\<bar>x\<bar>" 1100] assms low by simp
  moreover have "ulp x = 2 powi (e - 52)"
  proof (cases "52 \<le> e")
    case True
    then show ?thesis
      by (simp add: ulp_def Let_def e_def [symmetric] power_int_def)
  next
    case False
    then have "2 powi (e - 52) = 1 / (2::real) ^ nat (52 - e)"
      by (simp add: power_int_def field_simps)
    then show ?thesis
      using False by (simp add: ulp_def Let_def e_def [symmetric])
  qed
  moreover have "2 powi (e - 52) = 2 powi e / (2::real) ^ 52"
    by (simp add: power_int_diff)
  ultimately show ?thesis
    by (simp add: divide_right_mono)
qed

lemma ulp_bound:
  assumes "\<bar>x\<bar> \<le> B" "2 \<le> B" "B < 2 ^ 1100"
  shows "ulp x \<le> B / 2 ^ 52"
proof (cases "\<bar>x\<bar> < 2")
  case True
  have "1 / 2 ^ 52 \<le> B / (2::real) ^ 52"
    using assms(2) by (intro divide_right_mono) simp_all
  then show ?thesis
    using ulp_small [OF True] by linarith
next
  case False
  then have "ulp x \<le> \<bar>x\<bar> / 2 ^ 52"
    using assms by (intro ulp_large) simp_all
  moreover have "\<bar>x\<bar> / 2 ^ 52 \<le> B / 2 ^ 52"
    using assms(1) by (intro divide_right_mono) simp_all
  ultimately show ?thesis
    by linarith
qed

lemma fl_error:
  assumes "\<bar>x\<bar> \<le> B" "2 \<le> B" "B < 2 ^ 1100"
  shows "\<bar>fl x - x\<bar> \<le> B / 2 ^ 53"
proof (cases "x = 0")
  case True
  then show ?thesis using assms by (simp add: fl_def)
next
  case False
  define u where "u = ulp x"
  define r where "r = round_half_even (x / u)"
  have u: "0 < u"
    unfolding u_def by (rule ulp_pos)
  have "fl x - x = (of_int r - x / u) * u"
    using False u by (simp add: fl_def u_def r_def field_simps)
  then have "\<bar>fl x - x\<bar> = \<bar>of_int r - x / u\<bar> * u"
    using u by (simp add: abs_mult)
  also have "\<dots> \<le> 1 / 2 * u"
    using round_half_even_error [of "x / u"] u unfolding r_def
    by (intro mult_right_mono) simp_all
  also have "\<dots> \<le> 1 / 2 * (B / 2 ^ 52)"
    using ulp_bound [OF assms] unfolding u_def by simp
  finally show ?thesis
    by simp
qed


lemma fl_error_small: "\<bar>x\<bar> \<le> 200000 \<Longrightarrow> \<bar>fl x - x\<bar> \<le> 1 / 10000000000"
  using fl_error [of x 200000] by simp

lemma fl_error_cents: "\<bar>x\<bar> \<le> 20000000 \<Longrightarrow> \<bar>fl x - x\<bar> \<le> 1 / 100000000"
  using fl_error [of x 20000000] by simp

lemma Math_round_error: "\<bar>of_int (Math_round y) - y\<bar> \<le> 1 / 2"
  unfolding Math_round_def by linarith

lemma Math_round_exact: "\<bar>y - of_int M\<bar> < 1 / 2 \<Longrightarrow> Math_round y = M"
  unfolding Math_round_def by linarith

lemma round2_near:
  assumes "\<bar>x\<bar> \<le> 199999"
  shows "\<bar>round2 x - x\<bar> \<le> 1 / 200 + 1 / 1000000000"
    and "\<exists>K::int. \<bar>round2 x - of_int K / 100\<bar> \<le> 1 / 10000000000"
proof -
  define y where "y = fl (x * 100)"
  define K where "K = Math_round y"
  have y: "\<bar>y - x * 100\<bar> \<le> 1 / 100000000"
    unfolding y_def using assms by (intro fl_error_cents) simp
  have K: "\<bar>of_int K - y\<bar> \<le> 1 / 2"
    unfolding K_def by (rule Math_round_error)
  have Kx: "\<bar>of_int K / 100 - x\<bar> \<le> 1 / 200 + 1 / 10000000000"
    using y K by linarith
  then have "\<bar>of_int K / 100 :: real\<bar> \<le> 200000"
    using assms by linarith
  then have r: "\<bar>fl (of_int K / 100) - of_int K / 100\<bar> \<le> 1 / 10000000000"
    by (rule fl_error_small)
  have eq: "round2 x = fl (of_int K / 100)"
    by (simp add: round2_def fmul_def fdiv_def K_def y_def)
  show "\<bar>round2 x - x\<bar> \<le> 1 / 200 + 1 / 1000000000"
    using r Kx unfolding eq by linarith
  show "\<exists>K::int. \<bar>round2 x - of_int K / 100\<bar> \<le> 1 / 10000000000"
    using r unfolding eq by blast
qed

lemma round2_exact:
  assumes "\<bar>x - of_int M / 100\<bar> \<le> 1 / 1000" "\<bar>x\<bar> \<le> 199999"
  shows "\<bar>round2 x - of_int M / 100\<bar> \<le> 1 / 10000000000"
proof -
  define y where "y = fl (x * 100)"
  have y: "\<bar>y - x * 100\<bar> \<le> 1 / 100000000"
    unfolding y_def using assms by (intro fl_error_cents) simp
  have "\<bar>y - of_int M\<bar> < 1 / 2"
    using y assms(1) by linarith
  then have K: "Math_round y = M"
    by (rule Math_round_exact)
  have "\<bar>of_int M / 100 :: real\<bar> \<le> 200000"
    using assms by linarith
  then have "\<bar>fl (of_int M / 100) - of_int M / 100\<bar> \<le> 1 / 10000000000"
    by (rule fl_error_small)
  moreover have "round2 x = fl (of_int M / 100)"
    using K by (simp add: round2_def fmul_def fdiv_def y_def)
  ultimately show ?thesis
    by simp
qed


lemma fl_rate:
  assumes "0 \<le> c" "c \<le> 39 / 1000"
  shows "\<bar>fl c\<bar> \<le> 4 / 100"
  using fl_error_small [of c] assms by linarith

lemma fl_offset:
  assumes "0 \<le> c" "c \<le> 49 / 100"
  shows "\<bar>fl c\<bar> \<le> 1 / 2"
  using fl_error_small [of c] assms by linarith

lemma fmul_rate:
  assumes "0 \<le> a" "a \<le> 100001" "\<bar>c\<bar> \<le> 4 / 100"
  shows "\<bar>fmul a c\<bar> \<le> 4001"
proof -
  have "\<bar>a * c\<bar> = a * \<bar>c\<bar>"
    using assms(1) by (simp add: abs_mult)
  also have "\<dots> \<le> 100001 * (4 / 100)"
    using assms by (intro mult_mono) simp_all
  finally have b: "\<bar>a * c\<bar> \<le> 400004 / 100"
    by simp
  then have "\<bar>fl (a * c) - a * c\<bar> \<le> 1 / 10000000000"
    by (intro fl_error_small) linarith
  then show ?thesis
    unfolding fmul_def using b by linarith
qed

lemma fadd_offset:
  assumes "\<bar>x\<bar> \<le> 4001" "\<bar>b\<bar> \<le> 1 / 2"
  shows "\<bar>fadd x b\<bar> \<le> 4002"
proof -
  have "\<bar>fl (x + b) - (x + b)\<bar> \<le> 1 / 10000000000"
    using assms by (intro fl_error_small) linarith
  then show ?thesis
    unfolding fadd_def using assms by linarith
qed

lemma round2_fee:
  assumes "\<bar>x\<bar> \<le> 4002"
  shows "(\<exists>K::int. \<bar>round2 x - of_int K / 100\<bar> \<le> 1 / 10000000000) \<and> \<bar>round2 x\<bar> \<le> 4003"
proof -
  have x: "\<bar>x\<bar> \<le> 199999"
    using assms by linarith
  have "\<bar>round2 x\<bar> \<le> 4003"
    using round2_near(1) [OF x] assms by linarith
  then show ?thesis
    using round2_near(2) [OF x] by blast
qed

lemma platformFee_cents:
  assumes "0 \<le> a" "a \<le> 100001"
  shows "(\<exists>K::int. \<bar>round2 (fmul a (fl 0.025)) - of_int K / 100\<bar> \<le> 1 / 10000000000) \<and>
         \<bar>round2 (fmul a (fl 0.025))\<bar> \<le> 4003"
proof -
  have "\<bar>fl 0.025\<bar> \<le> 4 / 100"
    by (rule fl_rate) simp_all
  then have "\<bar>fmul a (fl 0.025)\<bar> \<le> 4001"
    using assms by (intro fmul_rate)
  then have "\<bar>fmul a (fl 0.025)\<bar> \<le> 4002"
    by linarith
  then show ?thesis
    by (rule round2_fee)
qed

lemma paymentProcessingFee_cents:
  assumes "0 \<le> a" "a \<le> 100001"
  shows "(\<exists>K::int. \<bar>paymentProcessingFee_of pm a - of_int K / 100\<bar> \<le> 1 / 10000000000) \<and>
         \<bar>paymentProcessingFee_of pm a\<bar> \<le> 4003"
proof -
  have rate: "\<bar>fadd (fmul a (fl c)) (fl b)\<bar> \<le> 4002"
    if "0 \<le> c" "c \<le> 39 / 1000" "0 \<le> b" "b \<le> 49 / 100" for c b :: real
    using that assms by (intro fadd_offset fmul_rate fl_rate fl_offset)
  have stripe: "\<bar>fadd (fmul a (fl 0.029)) (fl 0.30)\<bar> \<le> 4002"
    by (rule rate) simp_all
  have paypal: "\<bar>fadd (fmul a (fl 0.0349)) (fl 0.49)\<bar> \<le> 4002"
    by (rule rate) simp_all
  have "\<bar>fl 0.01\<bar> \<le> 4 / 100"
    by (rule fl_rate) simp_all
  then have "\<bar>fmul a (fl 0.01)\<bar> \<le> 4001"
    using assms by (intro fmul_rate)
  then have crypto: "\<bar>fmul a (fl 0.01)\<bar> \<le> 4002"
    by linarith
  have bank: "(\<exists>K::int. \<bar>1 - of_int K / 100 :: real\<bar> \<le> 1 / 10000000000) \<and> \<bar>1 :: real\<bar> \<le> 4003"
    by (intro conjI exI [of _ 100]) simp_all
  have none: "(\<exists>K::int. \<bar>0 - of_int K / 100 :: real\<bar> \<le> 1 / 10000000000) \<and> \<bar>0 :: real\<bar> \<le> 4003"
    by (intro conjI exI [of _ 0]) simp_all
  show ?thesis
    unfolding paymentProcessingFee_of_def
    using round2_fee [OF stripe] round2_fee [OF paypal] round2_fee [OF crypto] bank none
    by simp
qed


lemma fee_sum_chain:
  fixes a pf ppf :: real and P Q :: int
  assumes a: "0 \<le> a" "a \<le> 100001"
    and pf: "\<bar>pf - of_int P / 100\<bar> \<le> 1 / 10000000000" "\<bar>pf\<bar> \<le> 4003"
    and ppf: "\<bar>ppf - of_int Q / 100\<bar> \<le> 1 / 10000000000" "\<bar>ppf\<bar> \<le> 4003"
  defines "tf \<equiv> round2 (fadd pf ppf)"
  defines "net \<equiv> round2 (fsub a tf)"
  shows "\<bar>fadd (fadd net pf) ppf - a\<bar> \<le> 1 / 200 + 1 / 100000000"
    and "\<bar>a - of_int k / 100\<bar> \<le> 1 / 10000000000 \<Longrightarrow>
         \<bar>fadd (fadd net pf) ppf - a\<bar> \<le> 1 / 1000000000"
proof -
  define s where "s = fadd pf ppf"
  have s: "\<bar>s - (pf + ppf)\<bar> \<le> 1 / 10000000000"
    unfolding s_def fadd_def using pf(2) ppf(2) by (intro fl_error_small) linarith
  have PQ: "(of_int (P + Q) / 100 :: real) = of_int P / 100 + of_int Q / 100"
    by simp
  have "\<bar>s - of_int (P + Q) / 100\<bar> \<le> 1 / 1000"
    using s pf(1) ppf(1) PQ by linarith
  moreover have "\<bar>s\<bar> \<le> 199999"
    using s pf(2) ppf(2) by linarith
  ultimately have tf: "\<bar>tf - of_int (P + Q) / 100\<bar> \<le> 1 / 10000000000"
    unfolding tf_def s_def [symmetric] by (rule round2_exact)
  then have tf': "\<bar>tf - (pf + ppf)\<bar> \<le> 3 / 10000000000"
    using pf(1) ppf(1) PQ by linarith
  then have tf_bound: "\<bar>tf\<bar> \<le> 8007"
    using pf(2) ppf(2) by linarith
  define y where "y = fsub a tf"
  have y: "\<bar>y - (a - tf)\<bar> \<le> 1 / 10000000000"
    unfolding y_def fsub_def using a tf_bound by (intro fl_error_small) linarith
  have y_bound: "\<bar>y\<bar> \<le> 199999"
    using y a tf_bound by linarith
  have net_near: "\<bar>net - y\<bar> \<le> 1 / 200 + 1 / 1000000000"
    unfolding net_def y_def [symmetric] using y_bound by (rule round2_near(1))
  have net_bound: "\<bar>net\<bar> \<le> 108010"
    using net_near y a tf_bound by linarith
  define u where "u = fadd net pf"
  have u: "\<bar>u - (net + pf)\<bar> \<le> 1 / 10000000000"
    unfolding u_def fadd_def using net_bound pf(2) by (intro fl_error_small) linarith
  have v: "\<bar>fadd u ppf - (u + ppf)\<bar> \<le> 1 / 10000000000"
    unfolding fadd_def using u net_bound pf(2) ppf(2) by (intro fl_error_small) linarith
  show "\<bar>fadd (fadd net pf) ppf - a\<bar> \<le> 1 / 200 + 1 / 100000000"
    unfolding u_def [symmetric] using u v net_near y tf' by linarith
  show "\<bar>fadd (fadd net pf) ppf - a\<bar> \<le> 1 / 1000000000"
    if k: "\<bar>a - of_int k / 100\<bar> \<le> 1 / 10000000000"
  proof -
    have kPQ: "(of_int (k - (P + Q)) / 100 :: real) = of_int k / 100 - of_int (P + Q) / 100"
      by (simp add: diff_divide_distrib)
    have "\<bar>y - of_int (k - (P + Q)) / 100\<bar> \<le> 1 / 1000"
      using y tf k kPQ by linarith
    then have "\<bar>net - of_int (k - (P + Q)) / 100\<bar> \<le> 1 / 10000000000"
      unfolding net_def y_def [symmetric] using y_bound by (rule round2_exact)
    then have "\<bar>net - (a - (pf + ppf))\<bar> \<le> 4 / 10000000000"
      using k pf(1) ppf(1) kPQ PQ by linarith
    then show ?thesis
      unfolding u_def [symmetric] using u v by linarith
  qed
qed


lemma calculateFees_sum_bound:
  assumes "0 \<le> amount d" "amount d \<le> 100001"
  shows "\<bar>fee_sum (calculateFees d) - amount d\<bar> \<le> 1 / 200 + 1 / 100000000"
    and "\<bar>amount d - of_int k / 100\<bar> \<le> 1 / 10000000000 \<Longrightarrow>
         \<bar>fee_sum (calculateFees d) - amount d\<bar> \<le> 1 / 1000000000"
proof -
  define pf where "pf = round2 (fmul (amount d) (fl 0.025))"
  define ppf where "ppf = paymentProcessingFee_of (paymentMethod d) (amount d)"
  obtain P :: int where pf: "\<bar>pf - of_int P / 100\<bar> \<le> 1 / 10000000000" "\<bar>pf\<bar> \<le> 4003"
    unfolding pf_def using platformFee_cents [OF assms] by blast
  obtain Q :: int where ppf: "\<bar>ppf - of_int Q / 100\<bar> \<le> 1 / 10000000000" "\<bar>ppf\<bar> \<le> 4003"
    unfolding ppf_def using paymentProcessingFee_cents [OF assms, of "paymentMethod d"] by blast
  have sum: "fee_sum (calculateFees d)
               = fadd (fadd (round2 (fsub (amount d) (round2 (fadd pf ppf)))) pf) ppf"
    by (simp add: fee_sum_def calculateFees_def Let_def pf_def ppf_def)
  show "\<bar>fee_sum (calculateFees d) - amount d\<bar> \<le> 1 / 200 + 1 / 100000000"
    unfolding sum using assms pf ppf by (rule fee_sum_chain(1))
  show "\<bar>fee_sum (calculateFees d) - amount d\<bar> \<le> 1 / 1000000000"
    if "\<bar>amount d - of_int k / 100\<bar> \<le> 1 / 10000000000"
    unfolding sum using assms pf ppf that by (rule fee_sum_chain(2))
qed

lemma calculateFees_sum_whole_cents:
  assumes "100 \<le> k" "k \<le> 10000000" "amount d = fl (of_int k / 100)"
  shows "\<bar>fee_sum (calculateFees d) - amount d\<bar> \<le> 1 / 1000000000"
proof -
  have k: "1 \<le> (of_int k / 100 :: real)" "(of_int k / 100 :: real) \<le> 100000"
    using assms(1,2) by simp_all
  then have "\<bar>of_int k / 100 :: real\<bar> \<le> 200000"
    by linarith
  then have near: "\<bar>amount d - of_int k / 100\<bar> \<le> 1 / 10000000000"
    unfolding assms(3) by (rule fl_error_small)
  then have "0 \<le> amount d" "amount d \<le> 100001"
    using k by linarith+
  then show ?thesis
    using near by (rule calculateFees_sum_bound(2))
qed

text \<open>
  Claim C7, as the code has it. The fees and the net amount that \<^verbatim>\<open>calculateFees\<close>
  writes depend on the amount and the payment method only, so repeated calls with the
  same inputs give identical results. The sum of net amount, platform fee and processing
  fee, as JavaScript adds them, equals the gross amount only up to rounding: for every
  amount that the schema accepts (1 to 100000) and every payment method it differs from
  the gross amount by at most half a cent and \<open>10\<^sup>-\<^sup>8\<close>, and by at most \<open>10\<^sup>-\<^sup>9\<close> when the
  amount is a whole number of cents (the double nearest to \<open>k / 100\<close>). For 100.00 by
  card the fees and the net amount are the doubles nearest to 2.50, 3.20, 5.70 and 94.30,
  and the sum equals the gross amount exactly.
\<close>

theorem calculateFees_deterministic_and_sum_up_to_rounding:
  "(amount d' = amount d \<and> paymentMethod d' = paymentMethod d \<longrightarrow>
      fees (calculateFees d') = fees (calculateFees d) \<and>
      netAmount (calculateFees d') = netAmount (calculateFees d)) \<and>
   (1 \<le> amount d \<and> amount d \<le> 100000 \<longrightarrow>
      \<bar>fee_sum (calculateFees d) - amount d\<bar> \<le> 1 / 200 + 1 / 100000000) \<and>
   (100 \<le> k \<and> k \<le> 10000000 \<and> amount d = fl (of_int k / 100) \<longrightarrow>
      \<bar>fee_sum (calculateFees d) - amount d\<bar> \<le> 1 / 1000000000) \<and>
   (amount d = 100 \<and> paymentMethod d = ''stripe'' \<longrightarrow>
      fees (calculateFees d)
        = \<lparr>platformFee = 2.5, paymentProcessingFee = fl 3.2, totalFees = fl 5.7\<rparr> \<and>
      netAmount (calculateFees d) = fl 94.3 \<and>
      fee_sum (calculateFees d) = amount d)"
proof -
  have "\<bar>fee_sum (calculateFees d) - amount d\<bar> \<le> 1 / 200 + 1 / 100000000"
    if "1 \<le> amount d" "amount d \<le> 100000"
    using that by (intro calculateFees_sum_bound(1)) linarith+
  then show ?thesis
    using calculateFees_deterministic [of d' d] calculateFees_100_stripe [of d]
      calculateFees_sum_whole_cents [of k d]
    by blast
qed

lemma doc_100_amount:
  "amount doc_100 = 100" "paymentMethod doc_100 = ''stripe''"
  by (simp_all add: doc_100_def createDonation_doc_def request_100_def)

lemma doc_502_amount:
  "amount doc_502 = fl 5.02" "paymentMethod doc_502 = ''stripe''"
  by (simp_all add: doc_502_def doc_100_amount)

theorem calculateFees_deterministic_and_sum_up_to_rounding_witness:
  "amount (doc_100\<lparr>donation_id := 2, donor := None\<rparr>) = amount doc_100 \<and>
   paymentMethod (doc_100\<lparr>donation_id := 2, donor := None\<rparr>) = paymentMethod doc_100 \<and>
   fees (calculateFees (doc_100\<lparr>donation_id := 2, donor := None\<rparr>)) = fees (calculateFees doc_100) \<and>
   1 \<le> amount doc_100 \<and> amount doc_100 \<le> 100000 \<and>
   amount doc_100 = 100 \<and> paymentMethod doc_100 = ''stripe'' \<and>
   netAmount (calculateFees doc_100) = fl 94.3 \<and>
   fee_sum (calculateFees doc_100) = amount doc_100 \<and>
   (100::int) \<le> 502 \<and> (502::int) \<le> 10000000 \<and> amount doc_502 = fl (of_int 502 / 100) \<and>
   \<bar>fee_sum (calculateFees doc_502) - amount doc_502\<bar> \<le> 1 / 1000000000"
  using calculateFees_deterministic_and_sum_up_to_rounding
          [of "doc_100\<lparr>donation_id := 2, donor := None\<rparr>" doc_100 10000]
    calculateFees_deterministic_and_sum_up_to_rounding [of doc_502 doc_502 502]
  by (simp add: doc_100_amount doc_502_amount)

text \<open>
  Claim C7 as stated fails for 5.02 by card, a whole number of cents: the platform fee
  is 0.13, the processing fee 0.45 and the net amount 4.44 (as doubles), and their sum
  in JavaScript is 5.0200000000000005, the double after 5.02.
\<close>

theorem calculateFees_sum_counterexample:
  "amount doc_502 = fl 5.02 \<and> paymentMethod doc_502 = ''stripe'' \<and>
   platformFee (fees (calculateFees doc_502)) = fl 0.13 \<and>
   paymentProcessingFee (fees (calculateFees doc_502)) = fl 0.45 \<and>
   netAmount (calculateFees doc_502) = fl 4.44 \<and>
   amount (calculateFees doc_502) = 5652017532349972 / 1125899906842624 \<and>
   fee_sum (calculateFees doc_502) = 5652017532349973 / 1125899906842624 \<and>
   fee_sum (calculateFees doc_502) \<noteq> amount (calculateFees doc_502)"
proof -
  have a: "amount doc_502 = fl 5.02" and m: "paymentMethod doc_502 = ''stripe''"
    by (simp_all add: doc_502_def doc_100_amount)
  have pf: "platformFee (fees (calculateFees doc_502)) = fl 0.13"
    by (simp only: calculateFees_fields(1) a fees_502_stripe)
  have ppf: "paymentProcessingFee (fees (calculateFees doc_502)) = fl 0.45"
    by (simp only: calculateFees_fields(2) a m paymentProcessingFee_of_stripe fees_502_stripe)
  have tf: "totalFees (fees (calculateFees doc_502)) = fl 0.58"
    by (simp only: calculateFees_fields(3) pf ppf fees_502_stripe)
  have net: "netAmount (calculateFees doc_502) = fl 4.44"
    by (simp only: calculateFees_fields(4) tf a fees_502_stripe)
  have s: "fee_sum (calculateFees doc_502) = 5652017532349973 / 1125899906842624"
    by (simp only: fee_sum_def net pf ppf sum_502_stripe)
  have g: "amount (calculateFees doc_502) = 5652017532349972 / 1125899906842624"
    by (simp only: calculateFees_fields(5) a sum_502_stripe)
  have "fee_sum (calculateFees doc_502) \<noteq> amount (calculateFees doc_502)"
    by (simp add: s g)
  then show ?thesis
    using a m pf ppf net s g by blast
qed

section \<open>The public projection of an anonymous donation\<close>

text \<open>
  Claim C10. For an anonymous donation the public projection has no amount and no
  formatted amount, its donor is the literal string \<^verbatim>\<open>Anonymous\<close>, and two anonymous
  donations that differ only in amount and donor have the same projection.
\<close>

theorem getPublicInfo_anonymous:
  assumes "isAnonymous d"
  shows "pi_amount (getPublicInfo fmt d) = None \<and>
         pi_formattedAmount (getPublicInfo fmt d) = None \<and>
         pi_donor (getPublicInfo fmt d) = DonorName ''Anonymous'' \<and>
         getPublicInfo fmt (d\<lparr>amount := a, donor := u\<rparr>) =
           getPublicInfo fmt (d\<lparr>amount := b, donor := v\<rparr>)"
  using assms by (simp add: getPublicInfo_def)

theorem getPublicInfo_anonymous_witness:
  "isAnonymous (doc_100\<lparr>isAnonymous := True\<rparr>) \<and>
   pi_amount (getPublicInfo (\<lambda>c a. c) (doc_100\<lparr>isAnonymous := True\<rparr>)) = None \<and>
   pi_donor (getPublicInfo (\<lambda>c a. c) (doc_100\<lparr>isAnonymous := True\<rparr>)) = DonorName ''Anonymous'' \<and>
   getPublicInfo (\<lambda>c a. c) (doc_100\<lparr>isAnonymous := True, amount := 5, donor := Some 3\<rparr>) =
     getPublicInfo (\<lambda>c a. c) (doc_100\<lparr>isAnonymous := True, amount := 50000, donor := Some 4\<rparr>)"
  using getPublicInfo_anonymous
          [where d = "doc_100\<lparr>isAnonymous := True\<rparr>" and fmt = "\<lambda>c a. c"
             and a = 5 and u = "Some 3" and b = 50000 and v = "Some 4"]
  by simp

section \<open>Effects of the writes on the store\<close>

lemma apply_writes_simps [simp]:
  "apply_writes s [] = s"
  "apply_writes s (w # ws) = apply_writes (w s) ws"
  by (simp_all add: apply_writes_def)

lemma visible_states_nonempty [simp]: "visible_states s ws \<noteq> []"
  by (cases ws) simp_all

lemma last_visible_states: "last (visible_states s ws) = apply_writes s ws"
  by (induction ws arbitrary: s) simp_all

lemma Campaign_inc_currentAmount_simps [simp]:
  "donations (Campaign_inc_currentAmount cid x s) = donations s"
  "users (Campaign_inc_currentAmount cid x s) = users s"
  "campaigns (Campaign_inc_currentAmount cid x s) k =
     (if k = cid then map_option (\<lambda>c. c\<lparr>currentAmount := currentAmount c + x\<rparr>) (campaigns s k)
      else campaigns s k)"
  by (simp_all add: Campaign_inc_currentAmount_def split: option.splits)

lemma incrementDonorCount_simps [simp]:
  "donations (incrementDonorCount cid s) = donations s"
  "users (incrementDonorCount cid s) = users s"
  "campaigns (incrementDonorCount cid s) k =
     (if k = cid then map_option (\<lambda>c. c\<lparr>donorCount := donorCount c + 1\<rparr>) (campaigns s k)
      else campaigns s k)"
  by (simp_all add: incrementDonorCount_def split: option.splits)

lemma User_inc_donationStats_simps [simp]:
  "donations (User_inc_donationStats uid x k t s) = donations s"
  "campaigns (User_inc_donationStats uid x k t s) = campaigns s"
  by (simp_all add: User_inc_donationStats_def Let_def split: option.splits)

lemma User_inc_donationStats_users:
  "users s u = Some usr \<Longrightarrow>
   map_option (\<lambda>w. donationCount (donationStats w)) (users (User_inc_donationStats (Some u) x k t s) u)
     = Some (donationCount (donationStats usr) + k)"
  "users s u = Some usr \<Longrightarrow>
   map_option (\<lambda>w. totalDonated (donationStats w)) (users (User_inc_donationStats (Some u) x k t s) u)
     = Some (totalDonated (donationStats usr) + x)"
  by (simp_all add: User_inc_donationStats_def Let_def)

lemma User_inc_top_simps [simp]:
  "donations (User_inc_top u x k s) = donations s"
  "campaigns (User_inc_top u x k s) = campaigns s"
  by (simp_all add: User_inc_top_def split: option.splits)

lemma Donation_save_simps [simp]:
  "campaigns (Donation_save e d s) = campaigns s"
  "users (Donation_save e d s) = users s"
  "donations (Donation_save e d s) = (donations s)(donation_id d \<mapsto> pre_save e d)"
  by (simp_all add: Donation_save_def)

lemma calculateFees_keeps [simp]:
  "donation_id (calculateFees d) = donation_id d"
  "status (calculateFees d) = status d"
  "campaign (calculateFees d) = campaign d"
  "donor (calculateFees d) = donor d"
  "amount (calculateFees d) = amount d"
  "receipt (calculateFees d) = receipt d"
  "refund (calculateFees d) = refund d"
  "paymentIntentId (calculateFees d) = paymentIntentId d"
  by (simp_all add: calculateFees_def Let_def)

lemma pre_save_keeps [simp]:
  "donation_id (pre_save e d) = donation_id d"
  "status (pre_save e d) = status d"
  "campaign (pre_save e d) = campaign d"
  "donor (pre_save e d) = donor d"
  "amount (pre_save e d) = amount d"
  "refund (pre_save e d) = refund d"
  "paymentIntentId (pre_save e d) = paymentIntentId d"
  by (simp_all add: pre_save_def Let_def)

lemma pre_save_netAmount:
  "totalFees (fees d) \<noteq> 0 \<Longrightarrow> netAmount (pre_save e d) = netAmount d"
  "totalFees (fees d) \<noteq> 0 \<Longrightarrow> fees (pre_save e d) = fees d"
  by (simp_all add: pre_save_def Let_def)


lemma generateReceiptNumber_nonempty: "generateReceiptNumber e \<noteq> []"
  by (simp add: generateReceiptNumber_def Let_def)

lemma markAsCompleted_campaign:
  "campaigns s (campaign d) = Some c \<Longrightarrow>
   map_option currentAmount (campaigns (markAsCompleted e d s) (campaign d))
     = Some (currentAmount c + netAmount d)"
  by (simp add: markAsCompleted_def markAsCompleted_writes_def Let_def)

lemma markAsCompleted_donation:
  "donations (markAsCompleted e d s) (donation_id d) = Some (pre_save e (d\<lparr>status := Completed\<rparr>))"
  by (simp add: markAsCompleted_def markAsCompleted_writes_def Let_def)

lemma updateDonationStatus_doc_keeps [simp]:
  "donation_id (updateDonationStatus_doc e r d) = donation_id d"
  "status (updateDonationStatus_doc e r d) = req_status r"
  "campaign (updateDonationStatus_doc e r d) = campaign d"
  "donor (updateDonationStatus_doc e r d) = donor d"
  "amount (updateDonationStatus_doc e r d) = amount d"
  "fees (updateDonationStatus_doc e r d) = fees d"
  "netAmount (updateDonationStatus_doc e r d) = netAmount d"
  "receipt (updateDonationStatus_doc e r d) = receipt d"
  by (simp_all add: updateDonationStatus_doc_def Let_def)

lemma updateDonationStatus_campaign_completed:
  assumes "donations s i = Some d" "req_status r = Completed"
  shows "campaigns (snd (updateDonationStatus e i r s)) k =
     (if k = campaign d then map_option (\<lambda>c. c\<lparr>currentAmount := currentAmount c + amount d\<rparr>) (campaigns s k)
      else campaigns s k)"
  using assms
  by (simp add: updateDonationStatus_def updateDonationStatus_writes_def Let_def split: option.splits)

lemma updateDonationStatus_donation:
  assumes "donations s i = Some d" "donation_id d = i"
  shows "donations (snd (updateDonationStatus e i r s)) i = Some (pre_save e (updateDonationStatus_doc e r d))"
    and "fst (updateDonationStatus e i r s) = Inr (pre_save e (updateDonationStatus_doc e r d))"
  using assms
  by (simp_all add: updateDonationStatus_def updateDonationStatus_writes_def Let_def split: option.splits)


lemma processRefund_campaign:
  "campaigns (processRefund e a reason admin d s) k =
     (if k = campaign d then map_option (\<lambda>c. c\<lparr>currentAmount := currentAmount c + - a\<rparr>) (campaigns s k)
      else campaigns s k)"
  by (simp add: processRefund_def processRefund_writes_def Let_def)

lemma processRefund_donation:
  "donations (processRefund e a reason admin d s) (donation_id d) =
     Some (pre_save e (d\<lparr>status := Refunded,
                  refund := Some \<lparr>refundId = ''refund_'' @ string_of_nat (getTime (now e)),
                                  refundAmount = a,
                                  refundReason = reason,
                                  refundedAt = now e,
                                  refundedBy = admin\<rparr>\<rparr>))"
  by (simp add: processRefund_def processRefund_writes_def Let_def)

section \<open>The scenario data, evaluated\<close>

lemma doc_100_fields:
  "donation_id doc_100 = 5" "donor doc_100 = Some 3" "campaign doc_100 = 7"
  "amount doc_100 = 100" "paymentMethod doc_100 = ''stripe''" "status doc_100 = Pending"
  "receiptNumber (receipt doc_100) = []" "totalFees (fees doc_100) = 0"
  "paymentIntentId doc_100 = []"
  by (simp_all add: doc_100_def createDonation_doc_def request_100_def)



lemma donation1_fields:
  "donation_id donation1 = 5" "donor donation1 = Some 3" "campaign donation1 = 7"
  "amount donation1 = 100" "status donation1 = Pending"
  "paymentIntentId donation1 = []"
  by (simp_all add: donation1_def doc_100_fields)

lemma donation1_paymentMethod: "paymentMethod donation1 = ''stripe''"
  by (simp add: donation1_def doc_100_fields)

lemma donation1_money:
  "netAmount donation1 = 94.3"
  "platformFee (fees donation1) = 2.5"
  "paymentProcessingFee (fees donation1) = 3.2"
  "totalFees (fees donation1) = 5.7"
  by (simp_all add: donation1_def)

lemma donation1_receipt: "receiptNumber (receipt donation1) = ''PKD-20261102-4FZYO8''"
  by (simp add: donation1_def)

lemma store0_fields:
  "donations store0 = Map.empty"
  "campaigns store0 7 = Some campaign0"
  "users store0 3 = Some user0"
  by (simp_all add: store0_def)

lemma campaign0_fields:
  "currentAmount campaign0 = 0" "donorCount campaign0 = 0"
  "campaign_status campaign0 = Active" "campaign_isActive campaign0"
  by (simp_all add: campaign0_def)

lemma store1_fields:
  "donations store1 = [5 \<mapsto> donation1]"
  "campaigns store1 = campaigns store0"
  "users store1 = users store0"
  by (simp_all add: store1_def)

section \<open>Completion and the campaign's raised amount\<close>

text \<open>
  Claim C1, on scenario 1. Donation 5 is 100.00 by card: platform fee 2.50, processing
  fee 3.20, net amount 94.30, and the campaign starts at 0. Completing it through the
  handler \<^verbatim>\<open>updateDonationStatus\<close> raises the campaign's \<^verbatim>\<open>currentAmount\<close> by the gross
  amount 100.00, while the model method \<^verbatim>\<open>markAsCompleted\<close> raises it by the net amount
  94.30.
\<close>

theorem updateDonationStatus_credits_gross_amount:
  "donations store1 5 = Some donation1 \<and>
   amount donation1 = 100 \<and> paymentMethod donation1 = ''stripe'' \<and>
   platformFee (fees donation1) = 2.5 \<and> paymentProcessingFee (fees donation1) = 3.2 \<and>
   netAmount donation1 = 94.3 \<and>
   map_option currentAmount (campaigns store1 7) = Some 0 \<and>
   map_option currentAmount
     (campaigns (snd (updateDonationStatus env0 5 payment_succeeded store1)) 7) = Some 100 \<and>
   map_option currentAmount (campaigns (markAsCompleted env0 donation1 store1) 7) = Some 94.3"
proof -
  have d: "donations store1 5 = Some donation1"
    by (simp add: store1_fields)
  have c: "campaigns store1 7 = Some campaign0"
    by (simp add: store1_fields store0_fields)
  have r: "req_status payment_succeeded = Completed"
    by (simp add: payment_succeeded_def)
  have u: "map_option currentAmount
     (campaigns (snd (updateDonationStatus env0 5 payment_succeeded store1)) 7) = Some 100"
    by (simp add: updateDonationStatus_campaign_completed [OF d r] donation1_fields c
          campaign0_fields)
  have m: "map_option currentAmount (campaigns (markAsCompleted env0 donation1 store1) 7) = Some 94.3"
    using markAsCompleted_campaign [of store1 donation1 _ env0] c
    by (simp add: donation1_fields donation1_money campaign0_fields)
  have c0: "map_option currentAmount (campaigns store1 7) = Some 0"
    by (simp add: c campaign0_fields)
  show ?thesis
    using d c0 u m donation1_fields(4) donation1_paymentMethod donation1_money(1,2,3)
    by blast
qed

section \<open>Repeated completion\<close>

lemma User_inc_donationStats_user:
  "users s u = Some usr \<Longrightarrow>
   users (User_inc_donationStats (Some u) x k t s) u =
     Some (usr\<lparr>donationStats := (donationStats usr)
              \<lparr>totalDonated := totalDonated (donationStats usr) + x,
               donationCount := donationCount (donationStats usr) + k,
               lastDonation := (case t of None \<Rightarrow> lastDonation (donationStats usr)
                                | Some t' \<Rightarrow> Some t')\<rparr>\<rparr>)"
  by (simp add: User_inc_donationStats_def Let_def)

lemma markAsCompleted_users:
  "users (markAsCompleted e d s) = users (User_inc_donationStats (donor d) (amount d) 1 (Some (now e)) s)"
  by (simp add: markAsCompleted_def markAsCompleted_writes_def User_inc_donationStats_def
        Let_def split: option.splits)

lemma markAsCompleted_donationCount:
  assumes "donor d = Some u" "users s u = Some usr"
  shows "map_option (\<lambda>w. donationCount (donationStats w)) (users (markAsCompleted e d s) u)
           = Some (donationCount (donationStats usr) + 1)"
  using assms by (simp add: markAsCompleted_users User_inc_donationStats_user)

lemma markAsCompleted_twice_campaign:
  assumes "campaigns s (campaign d) = Some c" "totalFees (fees d) \<noteq> 0"
  shows "map_option currentAmount
           (campaigns (markAsCompleted e' (pre_save e (d\<lparr>status := Completed\<rparr>)) (markAsCompleted e d s))
              (campaign d))
         = Some (currentAmount c + 2 * netAmount d)"
proof -
  let ?d1 = "pre_save e (d\<lparr>status := Completed\<rparr>)"
  let ?s1 = "markAsCompleted e d s"
  have n: "netAmount ?d1 = netAmount d"
    using assms(2) by (simp add: pre_save_netAmount)
  have c1: "campaigns ?s1 (campaign ?d1) = Some (c\<lparr>currentAmount := currentAmount c + netAmount d\<rparr>)"
    using assms(1) by (simp add: markAsCompleted_def markAsCompleted_writes_def Let_def)
  show ?thesis
    using markAsCompleted_campaign [OF c1, of e'] n by auto
qed

lemma markAsCompleted_twice_donationCount:
  assumes "donor d = Some u" "users s u = Some usr"
  shows "map_option (\<lambda>w. donationCount (donationStats w))
           (users (markAsCompleted e' (pre_save e (d\<lparr>status := Completed\<rparr>)) (markAsCompleted e d s)) u)
         = Some (donationCount (donationStats usr) + 2)"
proof -
  let ?d1 = "pre_save e (d\<lparr>status := Completed\<rparr>)"
  let ?s1 = "markAsCompleted e d s"
  have d1: "donor ?d1 = Some u"
    using assms(1) by simp
  obtain usr1 where u1: "users ?s1 u = Some usr1"
    and k1: "donationCount (donationStats usr1) = donationCount (donationStats usr) + 1"
    using assms by (simp add: markAsCompleted_users User_inc_donationStats_user)
  show ?thesis
    using markAsCompleted_donationCount [OF d1 u1, of e'] k1 by auto
qed

lemma updateDonationStatus_twice:
  assumes "donations s i = Some d" "donation_id d = i" "campaigns s (campaign d) = Some c"
    "req_status r = Completed"
  shows "\<exists>d1 d2.
     fst (updateDonationStatus e i r s) = Inr d1 \<and>
     donations (snd (updateDonationStatus e i r s)) i = Some d1 \<and> status d1 = Completed \<and>
     fst (updateDonationStatus e' i r (snd (updateDonationStatus e i r s))) = Inr d2 \<and>
     status d2 = Completed \<and>
     map_option currentAmount (campaigns (snd (updateDonationStatus e i r s)) (campaign d))
       = Some (currentAmount c + amount d) \<and>
     map_option currentAmount
       (campaigns (snd (updateDonationStatus e' i r (snd (updateDonationStatus e i r s))))
          (campaign d))
       = Some (currentAmount c + 2 * amount d)"
proof -
  let ?d1 = "pre_save e (updateDonationStatus_doc e r d)"
  let ?s1 = "snd (updateDonationStatus e i r s)"
  let ?d2 = "pre_save e' (updateDonationStatus_doc e' r ?d1)"
  have i1: "donation_id ?d1 = i"
    using assms(2) by simp
  have d1: "donations ?s1 i = Some ?d1" and f1: "fst (updateDonationStatus e i r s) = Inr ?d1"
    using updateDonationStatus_donation [OF assms(1,2)] by simp_all
  have f2: "fst (updateDonationStatus e' i r ?s1) = Inr ?d2"
    using updateDonationStatus_donation(2) [OF d1 i1] .
  have c1: "campaigns ?s1 (campaign d) = Some (c\<lparr>currentAmount := currentAmount c + amount d\<rparr>)"
    using assms by (simp add: updateDonationStatus_campaign_completed)
  have c2: "campaigns (snd (updateDonationStatus e' i r ?s1)) (campaign d)
              = Some (c\<lparr>currentAmount := currentAmount c + amount d + amount d\<rparr>)"
    using c1 by (simp add: updateDonationStatus_campaign_completed [OF d1 assms(4)])
  show ?thesis
    using d1 f1 f2 c1 c2 assms(4) by simp
qed

text \<open>
  Claim C2, as the code has it. Neither \<^verbatim>\<open>updateDonationStatus\<close> nor \<^verbatim>\<open>markAsCompleted\<close>
  looks at the payment reference or at the current status. A second completion of the
  same donation with the same request is answered like the first, with the completed
  donation, and applies the increment of the campaign's \<^verbatim>\<open>currentAmount\<close> in full once
  more: after two completions the campaign has gained that increment twice. With
  \<^verbatim>\<open>markAsCompleted\<close> the campaign has gained twice the net amount and the donor's
  \<^verbatim>\<open>donationCount\<close> two.
\<close>

theorem completion_reapplies_aggregate_effects:
  assumes "donations s i = Some d" "donation_id d = i" "campaigns s (campaign d) = Some c"
    "req_status r = Completed" "totalFees (fees d) \<noteq> 0" "donor d = Some u" "users s u = Some usr"
  shows "(\<exists>d1 d2.
     fst (updateDonationStatus e i r s) = Inr d1 \<and>
     donations (snd (updateDonationStatus e i r s)) i = Some d1 \<and> status d1 = Completed \<and>
     fst (updateDonationStatus e' i r (snd (updateDonationStatus e i r s))) = Inr d2 \<and>
     status d2 = Completed \<and>
     map_option currentAmount (campaigns (snd (updateDonationStatus e i r s)) (campaign d))
       = Some (currentAmount c + amount d) \<and>
     map_option currentAmount
       (campaigns (snd (updateDonationStatus e' i r (snd (updateDonationStatus e i r s))))
          (campaign d))
       = Some (currentAmount c + 2 * amount d)) \<and>
   donations (markAsCompleted e d s) i = Some (pre_save e (d\<lparr>status := Completed\<rparr>)) \<and>
   map_option currentAmount
     (campaigns (markAsCompleted e' (pre_save e (d\<lparr>status := Completed\<rparr>)) (markAsCompleted e d s))
        (campaign d))
     = Some (currentAmount c + 2 * netAmount d) \<and>
   map_option (\<lambda>w. donationCount (donationStats w))
     (users (markAsCompleted e' (pre_save e (d\<lparr>status := Completed\<rparr>)) (markAsCompleted e d s)) u)
     = Some (donationCount (donationStats usr) + 2)"
  using updateDonationStatus_twice [OF assms(1-4), of e e']
    markAsCompleted_donation [of e d s] assms(2)
    markAsCompleted_twice_campaign [OF assms(3,5), of e' e]
    markAsCompleted_twice_donationCount [OF assms(6,7), of e' e]
  by simp

lemma updateDonationStatus_users: "users (snd (updateDonationStatus e i r s)) = users s"
  by (simp add: updateDonationStatus_def updateDonationStatus_writes_def User_inc_top_def
        apply_writes_def Let_def split: option.splits)

lemma store1_at:
  "donations store1 5 = Some donation1"
  "campaigns store1 7 = Some campaign0"
  "users store1 3 = Some user0"
  by (simp_all add: store1_fields store0_fields)

lemma payment_succeeded_fields:
  "req_status payment_succeeded = Completed"
  "req_paymentIntentId payment_succeeded = ''pi_1''"
  "req_transactionId payment_succeeded = []"
  by (simp_all add: payment_succeeded_def)

lemma donation2_fields:
  "donation_id donation2 = 5" "donor donation2 = Some 3" "campaign donation2 = 7"
  "amount donation2 = 100" "status donation2 = Completed" "paymentIntentId donation2 = ''pi_1''"
  "netAmount donation2 = 94.3"
  by (simp_all add: donation2_def donation1_fields payment_succeeded_fields pre_save_netAmount
        donation1_money updateDonationStatus_doc_def Let_def)

lemma store2_at:
  "donations store2 5 = Some donation2"
  "campaigns store2 7 = Some (campaign0\<lparr>currentAmount := 100\<rparr>)"
  "users store2 3 = Some user0"
proof -
  show "donations store2 5 = Some donation2"
    unfolding store2_def donation2_def
    using updateDonationStatus_donation(1) [OF store1_at(1) donation1_fields(1)] .
  show "campaigns store2 7 = Some (campaign0\<lparr>currentAmount := 100\<rparr>)"
    unfolding store2_def
    by (simp add: updateDonationStatus_campaign_completed [OF store1_at(1) payment_succeeded_fields(1)]
          donation1_fields store1_at campaign0_def)
  show "users store2 3 = Some user0"
    unfolding store2_def by (simp add: updateDonationStatus_users store1_at)
qed

lemma store3_at:
  "campaigns store3 7 = Some (campaign0\<lparr>currentAmount := 200\<rparr>)"
  "users store3 3 = Some user0"
proof -
  show "campaigns store3 7 = Some (campaign0\<lparr>currentAmount := 200\<rparr>)"
    unfolding store3_def
    by (simp add: updateDonationStatus_campaign_completed [OF store2_at(1) payment_succeeded_fields(1)]
          donation2_fields store2_at campaign0_def)
  show "users store3 3 = Some user0"
    unfolding store3_def by (simp add: updateDonationStatus_users store2_at)
qed

theorem completion_reapplies_aggregate_effects_witness:
  "donations store1 5 = Some donation1 \<and> donation_id donation1 = 5 \<and>
   campaigns store1 (campaign donation1) = Some campaign0 \<and>
   req_status payment_succeeded = Completed \<and> totalFees (fees donation1) \<noteq> 0 \<and>
   donor donation1 = Some 3 \<and> users store1 3 = Some user0 \<and>
   map_option currentAmount
     (campaigns (markAsCompleted env0 (pre_save env0 (donation1\<lparr>status := Completed\<rparr>))
                   (markAsCompleted env0 donation1 store1)) (campaign donation1))
     = Some (2 * 94.3) \<and>
   map_option (\<lambda>w. donationCount (donationStats w))
     (users (markAsCompleted env0 (pre_save env0 (donation1\<lparr>status := Completed\<rparr>))
               (markAsCompleted env0 donation1 store1)) 3)
     = Some 2 \<and>
   map_option currentAmount
     (campaigns (snd (updateDonationStatus env0 5 payment_succeeded
                        (snd (updateDonationStatus env0 5 payment_succeeded store1)))) 7)
     = Some 200"
  using completion_reapplies_aggregate_effects
          [where s = store1 and i = 5 and d = donation1 and c = campaign0
             and r = payment_succeeded and u = 3 and usr = user0 and e = env0 and e' = env0]
  by (auto simp add: store1_at donation1_fields donation1_money payment_succeeded_fields
        campaign0_fields user0_def)

text \<open>
  Claim C2 as stated fails on scenario 1: the payment event with reference \<^verbatim>\<open>pi_1\<close>
  is delivered twice for donation 5 (net amount 94.30). After the first delivery the
  donation is completed and carries the reference; the second delivery is answered
  with the donation as well and raises the campaign from 100 to 200.
\<close>

theorem duplicate_payment_event_counted_twice:
  "req_paymentIntentId payment_succeeded = ''pi_1'' \<and>
   map_option paymentIntentId (donations store2 5) = Some ''pi_1'' \<and>
   map_option status (donations store2 5) = Some Completed \<and>
   map_option netAmount (donations store2 5) = Some 94.3 \<and>
   map_option currentAmount (campaigns store1 7) = Some 0 \<and>
   map_option currentAmount (campaigns store2 7) = Some 100 \<and>
   \<not> isl (fst (updateDonationStatus env0 5 payment_succeeded store2)) \<and>
   map_option currentAmount (campaigns store3 7) = Some 200"
  using updateDonationStatus_donation(2)
          [OF store2_at(1) donation2_fields(1), of env0 payment_succeeded]
  by (simp add: payment_succeeded_fields store1_at store2_at store3_at donation2_fields
        campaign0_fields)

section \<open>The order of the writes\<close>

lemma visible_states_first: "s \<in> set (visible_states s ws)"
  by (cases ws) simp_all

lemma visible_states_second: "w s \<in> set (visible_states s (w # ws))"
  by (simp add: visible_states_first)

lemma updateDonationStatus_last:
  "donations s i = Some d \<Longrightarrow>
   last (visible_states s (updateDonationStatus_writes e r d)) = snd (updateDonationStatus e i r s)"
  by (simp add: last_visible_states updateDonationStatus_def Let_def)

lemma refundDonation_last:
  "donations s i = Some d \<Longrightarrow> status d = Completed \<Longrightarrow>
   last (visible_states s (refundDonation_writes e reason admin d))
     = snd (refundDonation e i reason admin s)"
  by (simp add: last_visible_states refundDonation_def)

lemma updateDonationStatus_intermediate:
  assumes "donations s i = Some d" "campaigns s (campaign d) = Some c" "req_status r = Completed"
  shows "\<exists>t \<in> set (visible_states s (updateDonationStatus_writes e r d)).
           donations t i = Some d \<and>
           map_option currentAmount (campaigns t (campaign d)) = Some (currentAmount c + amount d)"
proof
  let ?t = "Campaign_inc_currentAmount (campaign d) (amount d) s"
  show "?t \<in> set (visible_states s (updateDonationStatus_writes e r d))"
    using assms(3) by (simp add: updateDonationStatus_writes_def Let_def visible_states_first)
  show "donations ?t i = Some d \<and>
        map_option currentAmount (campaigns ?t (campaign d)) = Some (currentAmount c + amount d)"
    using assms(1,2) by simp
qed

lemma markAsCompleted_intermediate:
  assumes "donations s i = Some d" "campaigns s (campaign d) = Some c"
  shows "\<exists>t \<in> set (visible_states s (markAsCompleted_writes e d)).
           donations t i = Some d \<and>
           map_option currentAmount (campaigns t (campaign d)) = Some (currentAmount c + netAmount d)"
proof
  let ?t = "Campaign_inc_currentAmount (campaign d) (netAmount d) s"
  show "?t \<in> set (visible_states s (markAsCompleted_writes e d))"
    by (simp add: markAsCompleted_writes_def Let_def visible_states_first)
  show "donations ?t i = Some d \<and>
        map_option currentAmount (campaigns ?t (campaign d)) = Some (currentAmount c + netAmount d)"
    using assms by simp
qed

lemma refundDonation_doc_keeps [simp]:
  "donation_id (refundDonation_doc e reason admin d) = donation_id d"
  "status (refundDonation_doc e reason admin d) = Refunded"
  "campaign (refundDonation_doc e reason admin d) = campaign d"
  "donor (refundDonation_doc e reason admin d) = donor d"
  "amount (refundDonation_doc e reason admin d) = amount d"
  by (simp_all add: refundDonation_doc_def)

lemma refundDonation_intermediate:
  assumes "donation_id d = i"
  shows "\<exists>t \<in> set (visible_states s (refundDonation_writes e reason admin d)).
           map_option status (donations t i) = Some Refunded \<and> campaigns t = campaigns s"
proof
  let ?t = "Donation_save e (refundDonation_doc e reason admin d) s"
  show "?t \<in> set (visible_states s (refundDonation_writes e reason admin d))"
    by (simp add: refundDonation_writes_def Let_def visible_states_first)
  show "map_option status (donations ?t i) = Some Refunded \<and> campaigns ?t = campaigns s"
    using assms by simp
qed

text \<open>
  Claim C9, as the code has it. The status write and the aggregate updates are
  separate, successive writes, and the store between them is visible. While
  \<^verbatim>\<open>updateDonationStatus\<close> or \<^verbatim>\<open>markAsCompleted\<close> completes a donation there is a
  visible store in which the campaign is already raised and the donation is still as it
  was; while \<^verbatim>\<open>refundDonation\<close> runs there is a visible store in which the donation is
  already refunded and the campaigns are still as they were. The last visible store is
  the one the handler leaves.
\<close>

theorem status_write_and_aggregate_updates_are_separate_writes:
  assumes "donations s i = Some d" "donation_id d = i" "campaigns s (campaign d) = Some c"
  shows "(req_status r = Completed \<longrightarrow>
            (\<exists>t \<in> set (visible_states s (updateDonationStatus_writes e r d)).
               donations t i = Some d \<and>
               map_option currentAmount (campaigns t (campaign d))
                 = Some (currentAmount c + amount d))) \<and>
         last (visible_states s (updateDonationStatus_writes e r d))
           = snd (updateDonationStatus e i r s) \<and>
         (\<exists>t \<in> set (visible_states s (markAsCompleted_writes e d)).
            donations t i = Some d \<and>
            map_option currentAmount (campaigns t (campaign d))
              = Some (currentAmount c + netAmount d)) \<and>
         last (visible_states s (markAsCompleted_writes e d)) = markAsCompleted e d s \<and>
         (status d = Completed \<longrightarrow>
            (\<exists>t \<in> set (visible_states s (refundDonation_writes e reason admin d)).
               map_option status (donations t i) = Some Refunded \<and> campaigns t = campaigns s) \<and>
            last (visible_states s (refundDonation_writes e reason admin d))
              = snd (refundDonation e i reason admin s))"
  using updateDonationStatus_intermediate [OF assms(1,3), of r e]
    updateDonationStatus_last [OF assms(1), of e r]
    markAsCompleted_intermediate [OF assms(1,3), of e]
    refundDonation_intermediate [OF assms(2), of s e reason admin]
    refundDonation_last [OF assms(1), of e reason admin]
  by (simp add: last_visible_states markAsCompleted_def)

theorem status_write_and_aggregate_updates_are_separate_writes_witness:
  "donations store2 5 = Some donation2 \<and> donation_id donation2 = 5 \<and>
   campaigns store2 (campaign donation2) = Some (campaign0\<lparr>currentAmount := 100\<rparr>) \<and>
   req_status payment_succeeded = Completed \<and> status donation2 = Completed \<and>
   (\<exists>t \<in> set (visible_states store2 (updateDonationStatus_writes env0 payment_succeeded donation2)).
      donations t 5 = Some donation2 \<and>
      map_option currentAmount (campaigns t 7) = Some 200) \<and>
   (\<exists>t \<in> set (visible_states store2 (refundDonation_writes env0 ''duplicate charge'' (Some 9) donation2)).
      map_option status (donations t 5) = Some Refunded \<and> campaigns t = campaigns store2)"
  using status_write_and_aggregate_updates_are_separate_writes
          [where s = store2 and i = 5 and d = donation2 and c = "campaign0\<lparr>currentAmount := 100\<rparr>"
             and r = payment_succeeded and e = env0 and reason = "''duplicate charge''"
             and admin = "Some 9"]
  by (simp add: store2_at donation2_fields payment_succeeded_fields)

text \<open>
  Claim C9 as stated fails on scenario 1: the second visible store of the completion
  of donation 5 has the campaign at 100 while the stored donation is still pending.
\<close>

theorem completion_trace_shows_partial_application:
  "map_option status (donations (completion_trace ! 1) 5) = Some Pending \<and>
   map_option currentAmount (campaigns (completion_trace ! 1) 7) = Some 100 \<and>
   map_option currentAmount (campaigns (hd completion_trace) 7) = Some 0 \<and>
   last completion_trace = store2"
proof -
  have w: "updateDonationStatus_writes env0 payment_succeeded donation1 =
             [Campaign_inc_currentAmount 7 100, User_inc_top 3 100 1,
              Donation_save env0 (updateDonationStatus_doc env0 payment_succeeded donation1)]"
    by (simp add: updateDonationStatus_writes_def payment_succeeded_fields donation1_fields Let_def)
  have l: "last completion_trace = store2"
    unfolding completion_trace_def store2_def
    by (rule updateDonationStatus_last [OF store1_at(1)])
  show ?thesis
    using l
    by (simp add: completion_trace_def w store1_at donation1_fields campaign0_fields)
qed

section \<open>Refunds\<close>

lemma pre_save_id:
  "receiptNumber (receipt d) \<noteq> [] \<Longrightarrow> totalFees (fees d) \<noteq> 0 \<Longrightarrow> pre_save e d = d"
  by (simp add: pre_save_def)

lemma pre_save_status_refund [simp]:
  "pre_save e (d\<lparr>status := st, refund := r\<rparr>) = (pre_save e d)\<lparr>status := st, refund := r\<rparr>"
  by (simp add: pre_save_def calculateFees_def Let_def)

lemma donation1_completed_fields:
  "donation_id donation1_completed = 5" "donor donation1_completed = Some 3"
  "campaign donation1_completed = 7" "amount donation1_completed = 100"
  "status donation1_completed = Completed" "netAmount donation1_completed = 94.3"
  by (simp_all add: donation1_completed_def donation1_fields donation1_money)

lemma store_completed_at:
  "donations store_completed 5 = Some donation1_completed"
  "campaigns store_completed 7 = Some (campaign0\<lparr>currentAmount := 94.3\<rparr>)"
proof -
  have "pre_save env0 (donation1\<lparr>status := Completed\<rparr>) = donation1\<lparr>status := Completed\<rparr>"
    by (rule pre_save_id) (simp_all add: donation1_receipt donation1_money)
  then show "donations store_completed 5 = Some donation1_completed"
    using markAsCompleted_donation [of env0 donation1 store1]
    by (simp add: store_completed_def donation1_completed_def donation1_fields)
  show "campaigns store_completed 7 = Some (campaign0\<lparr>currentAmount := 94.3\<rparr>)"
    by (simp add: store_completed_def markAsCompleted_def markAsCompleted_writes_def Let_def
          donation1_fields donation1_money store1_at campaign0_def)
qed

lemma processRefund_stored:
  "\<exists>d'. donations (processRefund e a reason admin d s) (donation_id d) = Some d' \<and>
        status d' = Refunded \<and> map_option refundAmount (refund d') = Some a \<and>
        map_option refundedBy (refund d') = Some admin \<and> donation_id d' = donation_id d"
  by (simp add: processRefund_donation)

lemma processRefund_currentAmount:
  "campaigns s (campaign d) = Some c \<Longrightarrow>
   map_option currentAmount (campaigns (processRefund e a reason admin d s) (campaign d))
     = Some (currentAmount c - a)"
  by (simp add: processRefund_campaign)

text \<open>
  Claim C3, as the code has it. \<^verbatim>\<open>processRefund\<close> compares the amount with nothing:
  for every amount from 0 upwards, whatever the net amount of the donation and whatever
  refund it already carries, the donation is stored as refunded with that amount in its
  refund record and the campaign's \<^verbatim>\<open>currentAmount\<close> is lowered by that amount. (Amounts
  below 0 are left out: the schema declares a minimum of 0 for the refund amount.)
\<close>

theorem processRefund_checks_no_bound:
  assumes "0 \<le> a" "campaigns s (campaign d) = Some c"
  shows "\<exists>d'. donations (processRefund e a reason admin d s) (donation_id d) = Some d' \<and>
           status d' = Refunded \<and> map_option refundAmount (refund d') = Some a \<and>
           map_option currentAmount (campaigns (processRefund e a reason admin d s) (campaign d))
             = Some (currentAmount c - a)"
  using processRefund_stored [of e a reason admin d s] processRefund_currentAmount [OF assms(2)]
  by auto

theorem processRefund_checks_no_bound_witness:
  "(0::real) \<le> 100 \<and> campaigns store_completed (campaign donation1_completed)
      = Some (campaign0\<lparr>currentAmount := 94.3\<rparr>) \<and>
   netAmount donation1_completed < 100 \<and>
   (\<exists>d'. donations (processRefund env0 100 ''gross'' 9 donation1_completed store_completed) 5 = Some d' \<and>
      status d' = Refunded \<and> map_option refundAmount (refund d') = Some 100 \<and>
      map_option currentAmount
        (campaigns (processRefund env0 100 ''gross'' 9 donation1_completed store_completed) 7)
        = Some (94.3 - 100))"
  using processRefund_checks_no_bound
          [where a = 100 and s = store_completed and d = donation1_completed
             and c = "campaign0\<lparr>currentAmount := 94.3\<rparr>" and e = env0 and reason = "''gross''"
             and admin = 9]
  by (simp add: store_completed_at donation1_completed_fields)

text \<open>
  Claim C3 as stated fails on scenario 1: donation 5 is completed with net amount 94.30
  and the campaign stands at 94.30; a refund of 200.00 is applied, the donation is stored
  as refunded with refund amount 200.00 and the campaign drops to -105.70.
\<close>

theorem refund_above_net_amount_is_applied:
  "map_option netAmount (donations store_completed 5) = Some 94.3 \<and>
   map_option status (donations store_completed 5) = Some Completed \<and>
   map_option currentAmount (campaigns store_completed 7) = Some 94.3 \<and>
   map_option status
     (donations (processRefund env0 200 ''too much'' 9 donation1_completed store_completed) 5)
     = Some Refunded \<and>
   map_option refundAmount
     (Option.bind
        (donations (processRefund env0 200 ''too much'' 9 donation1_completed store_completed) 5)
        refund)
     = Some 200 \<and>
   map_option currentAmount
     (campaigns (processRefund env0 200 ''too much'' 9 donation1_completed store_completed) 7)
     = Some (- 105.7)"
  using processRefund_donation [of env0 200 "''too much''" 9 donation1_completed store_completed]
  by (simp add: store_completed_at donation1_completed_fields processRefund_campaign)

text \<open>
  Claim C4, as the code has it. A refund of amount \<open>a\<close> by \<^verbatim>\<open>processRefund\<close> lowers the
  \<^verbatim>\<open>currentAmount\<close> of the donation's campaign by exactly \<open>a\<close> and leaves every other
  campaign alone, and it always stores the donation as refunded, also when \<open>a\<close> is less
  than the net amount.
\<close>

theorem processRefund_reverses_amount_and_marks_refunded:
  assumes "0 \<le> a" "campaigns s (campaign d) = Some c"
  shows "map_option currentAmount (campaigns (processRefund e a reason admin d s) (campaign d))
           = Some (currentAmount c - a) \<and>
         (\<forall>k. k \<noteq> campaign d \<longrightarrow> campaigns (processRefund e a reason admin d s) k = campaigns s k) \<and>
         map_option status (donations (processRefund e a reason admin d s) (donation_id d))
           = Some Refunded"
  using processRefund_currentAmount [OF assms(2)]
  by (simp add: processRefund_campaign processRefund_donation)

theorem processRefund_reverses_amount_and_marks_refunded_witness:
  "(0::real) \<le> 50 \<and> campaigns store_completed (campaign donation1_completed)
      = Some (campaign0\<lparr>currentAmount := 94.3\<rparr>) \<and>
   50 < netAmount donation1_completed \<and>
   map_option currentAmount
     (campaigns (processRefund env0 50 ''half'' 9 donation1_completed store_completed) 7)
     = Some (94.3 - 50) \<and>
   map_option status
     (donations (processRefund env0 50 ''half'' 9 donation1_completed store_completed) 5)
     = Some Refunded"
  using processRefund_reverses_amount_and_marks_refunded
          [where a = 50 and s = store_completed and d = donation1_completed
             and c = "campaign0\<lparr>currentAmount := 94.3\<rparr>" and e = env0 and reason = "''half''"
             and admin = 9]
  by (simp add: store_completed_at donation1_completed_fields)

text \<open>
  Claim C4 as stated fails on scenario 4: a partial refund of 20.00 on the completed
  donation 5 (net amount 94.30) lowers the campaign from 94.30 to 74.30, and the
  donation is stored as refunded, not completed.
\<close>

theorem partial_refund_marks_donation_refunded:
  "map_option netAmount (donations store_completed 5) = Some 94.3 \<and>
   map_option currentAmount (campaigns store_completed 7) = Some 94.3 \<and>
   map_option currentAmount
     (campaigns (processRefund env0 20 ''partial'' 9 donation1_completed store_completed) 7)
     = Some 74.3 \<and>
   map_option status
     (donations (processRefund env0 20 ''partial'' 9 donation1_completed store_completed) 5)
     = Some Refunded"
  using processRefund_donation [of env0 20 "''partial''" 9 donation1_completed store_completed]
  by (simp add: store_completed_at donation1_completed_fields processRefund_campaign)

section \<open>Status transitions\<close>

lemma refundDonation_rejected:
  "donations s i = Some d \<Longrightarrow> status d \<noteq> Completed \<Longrightarrow>
   refundDonation e i reason admin s
     = (Inl (AppError ''Only completed donations can be refunded'' 400), s)"
  by (simp add: refundDonation_def)

lemma refundDonation_not_found:
  "donations s i = None \<Longrightarrow>
   refundDonation e i reason admin s = (Inl (AppError ''Donation not found'' 404), s)"
  by (simp add: refundDonation_def)

lemma updateDonationStatus_not_found:
  "donations s i = None \<Longrightarrow>
   updateDonationStatus e i r s = (Inl (AppError ''Donation not found'' 404), s)"
  by (simp add: updateDonationStatus_def)

lemma refundDonation_completed:
  assumes "donations s i = Some d" "donation_id d = i" "status d = Completed"
  shows "donations (snd (refundDonation e i reason admin s)) i
           = Some (pre_save e (refundDonation_doc e reason admin d))"
    and "campaigns (snd (refundDonation e i reason admin s)) k =
           (if k = campaign d
            then map_option (\<lambda>c. c\<lparr>currentAmount := currentAmount c + - amount d\<rparr>) (campaigns s k)
            else campaigns s k)"
  using assms
  by (simp_all add: refundDonation_def refundDonation_writes_def Let_def split: option.splits)

lemma updateDonationStatus_accepts:
  assumes "donations s i = Some d" "donation_id d = i"
  shows "\<exists>d'. updateDonationStatus e i r s = (Inr d', snd (updateDonationStatus e i r s)) \<and>
              status d' = req_status r \<and>
              donations (snd (updateDonationStatus e i r s)) i = Some d'"
  using updateDonationStatus_donation [OF assms, of e r]
  by (simp add: prod_eq_iff)

text \<open>
  Claim C5, as the code has it. Only the refund looks at the current status:
  \<^verbatim>\<open>refundDonation\<close> on a donation that is not completed answers with the error 400 and
  leaves the store as it was, and on a completed donation it stores the status refunded.
  \<^verbatim>\<open>updateDonationStatus\<close> stores whatever status the request names, from every current
  status, and answers with the updated donation. Both answer 404 for an unknown id and
  leave the store as it was.
\<close>

theorem only_refundDonation_checks_the_current_status:
  assumes "donations s i = Some d" "donation_id d = i" "donations s j = None"
  shows "(status d \<noteq> Completed \<longrightarrow>
            refundDonation e i reason admin s
              = (Inl (AppError ''Only completed donations can be refunded'' 400), s)) \<and>
         (status d = Completed \<longrightarrow>
            map_option status (donations (snd (refundDonation e i reason admin s)) i)
              = Some Refunded) \<and>
         (\<exists>d'. updateDonationStatus e i r s = (Inr d', snd (updateDonationStatus e i r s)) \<and>
               status d' = req_status r \<and>
               donations (snd (updateDonationStatus e i r s)) i = Some d') \<and>
         updateDonationStatus e j r s = (Inl (AppError ''Donation not found'' 404), s) \<and>
         refundDonation e j reason admin s = (Inl (AppError ''Donation not found'' 404), s)"
  using refundDonation_rejected [OF assms(1), of e reason admin]
    refundDonation_completed(1) [OF assms(1,2), of e reason admin]
    updateDonationStatus_accepts [OF assms(1,2), of e r]
    updateDonationStatus_not_found [OF assms(3), of e r]
    refundDonation_not_found [OF assms(3), of e reason admin]
  by simp

lemma store_at_6:
  "donations store1 6 = None"
  by (simp add: store1_fields)

theorem only_refundDonation_checks_the_current_status_witness:
  "donations store1 5 = Some donation1 \<and> donation_id donation1 = 5 \<and> donations store1 6 = None \<and>
   status donation1 \<noteq> Completed \<and>
   refundDonation env0 5 ''changed my mind'' (Some 9) store1
     = (Inl (AppError ''Only completed donations can be refunded'' 400), store1) \<and>
   map_option status (donations (snd (updateDonationStatus env0 5 payment_succeeded store1)) 5)
     = Some Completed \<and>
   updateDonationStatus env0 6 payment_succeeded store1
     = (Inl (AppError ''Donation not found'' 404), store1)"
  using only_refundDonation_checks_the_current_status
          [where s = store1 and i = 5 and d = donation1 and j = 6 and e = env0
             and reason = "''changed my mind''" and admin = "Some 9" and r = payment_succeeded]
  by (auto simp add: store1_at store_at_6 donation1_fields payment_succeeded_fields)

lemma donation3_fields:
  "donation_id donation3 = 5" "donor donation3 = Some 3" "campaign donation3 = 7"
  "amount donation3 = 100" "status donation3 = Refunded"
  by (simp_all add: donation3_def donation2_fields)

lemma store_refunded_at:
  "donations store_refunded 5 = Some donation3"
  "campaigns store_refunded 7 = Some (campaign0\<lparr>currentAmount := 0\<rparr>)"
  unfolding store_refunded_def donation3_def
  using refundDonation_completed [OF store2_at(1) donation2_fields(1) donation2_fields(5),
          of env0 "''duplicate charge''" "Some 9"]
  by (simp_all add: donation2_fields store2_at campaign0_def)

text \<open>
  Claim C5 as stated fails: donation 5, completed and then refunded, is sent the status
  \<^verbatim>\<open>pending\<close>. The update is accepted and the donation is pending again; the status
  \<^verbatim>\<open>completed\<close> is accepted from the refunded donation as well.
\<close>

theorem refunded_donation_reenters_pending:
  "map_option status (donations store_refunded 5) = Some Refunded \<and>
   req_status reopen_request = Pending \<and>
   \<not> isl (fst (updateDonationStatus env0 5 reopen_request store_refunded)) \<and>
   map_option status (donations (snd (updateDonationStatus env0 5 reopen_request store_refunded)) 5)
     = Some Pending \<and>
   \<not> isl (fst (updateDonationStatus env0 5 payment_succeeded store_refunded)) \<and>
   map_option status (donations (snd (updateDonationStatus env0 5 payment_succeeded store_refunded)) 5)
     = Some Completed"
  using updateDonationStatus_donation [OF store_refunded_at(1) donation3_fields(1), of env0 reopen_request]
    updateDonationStatus_donation [OF store_refunded_at(1) donation3_fields(1), of env0 payment_succeeded]
  by (simp add: store_refunded_at donation3_fields reopen_request_def payment_succeeded_fields)

section \<open>The donor count\<close>

lemma Campaign_inc_currentAmount_donorCount:
  "map_option donorCount (campaigns (Campaign_inc_currentAmount cid x s) k)
     = map_option donorCount (campaigns s k)"
  by (cases "campaigns s k") auto

lemma updateDonationStatus_donorCount:
  "map_option donorCount (campaigns (snd (updateDonationStatus e i r s)) k)
     = map_option donorCount (campaigns s k)"
proof (cases "donations s i")
  case None
  then show ?thesis by (simp add: updateDonationStatus_def)
next
  case (Some d)
  have "campaigns (snd (updateDonationStatus e i r s)) =
          (if req_status r = Completed
           then campaigns (Campaign_inc_currentAmount (campaign d) (amount d) s)
           else campaigns s)"
    using Some
    by (simp add: updateDonationStatus_def updateDonationStatus_writes_def Let_def
          split: option.splits)
  then show ?thesis
    by (simp add: option.map_comp o_def)
qed

lemma markAsCompleted_donorCount:
  "map_option donorCount (campaigns (markAsCompleted e d s) k)
     = map_option donorCount (campaigns s k)"
proof -
  have "campaigns (markAsCompleted e d s)
          = campaigns (Campaign_inc_currentAmount (campaign d) (netAmount d) s)"
    by (simp add: markAsCompleted_def markAsCompleted_writes_def Let_def)
  then show ?thesis
    by (simp add: option.map_comp o_def)
qed

text \<open>
  Claim C6, as the code has it. Completing a donation never changes the
  \<^verbatim>\<open>donorCount\<close> of any campaign, neither through \<^verbatim>\<open>updateDonationStatus\<close> nor through
  \<^verbatim>\<open>markAsCompleted\<close>. The one operation on \<^verbatim>\<open>donorCount\<close>, \<^verbatim>\<open>incrementDonorCount\<close>, adds 1
  to the count of its campaign without looking at any donation or donor.
\<close>

theorem completion_never_changes_donorCount:
  "map_option donorCount (campaigns (snd (updateDonationStatus e i r s)) k)
     = map_option donorCount (campaigns s k) \<and>
   map_option donorCount (campaigns (markAsCompleted e d s) k)
     = map_option donorCount (campaigns s k) \<and>
   map_option donorCount (campaigns (incrementDonorCount k s) k)
     = map_option (\<lambda>n. n + 1) (map_option donorCount (campaigns s k)) \<and>
   donations (incrementDonorCount k s) = donations s"
  using updateDonationStatus_donorCount [of e i r s k] markAsCompleted_donorCount [of e d s k]
  by (cases "campaigns s k") simp_all

theorem completion_never_changes_donorCount_witness:
  "map_option donorCount (campaigns (snd (updateDonationStatus env0 5 payment_succeeded store1)) 7)
     = Some 0 \<and>
   map_option donorCount (campaigns (markAsCompleted env0 donation1 store1) 7) = Some 0 \<and>
   map_option donorCount (campaigns (incrementDonorCount 7 store1) 7) = Some 1"
  using completion_never_changes_donorCount
          [where e = env0 and i = 5 and r = payment_succeeded and s = store1 and k = 7
             and d = donation1]
  by (simp add: store1_at campaign0_fields)

text \<open>
  Claim C6 as stated fails on scenario 1: donation 5 is the only donation, so its
  completion is the first completed donation of donor 3 to campaign 7, and the donor
  count of the campaign stays 0 on both completion paths. \<^verbatim>\<open>incrementDonorCount\<close> called
  twice then counts two donors although one donor has given.
\<close>

theorem first_completed_donation_leaves_donorCount:
  "donations store1 = [5 \<mapsto> donation1] \<and> status donation1 = Pending \<and>
   donor donation1 = Some 3 \<and> campaign donation1 = 7 \<and>
   map_option donorCount (campaigns store1 7) = Some 0 \<and>
   map_option status (donations store2 5) = Some Completed \<and>
   map_option donorCount (campaigns store2 7) = Some 0 \<and>
   map_option donorCount (campaigns (markAsCompleted env0 donation1 store1) 7) = Some 0 \<and>
   map_option donorCount (campaigns (incrementDonorCount 7 (incrementDonorCount 7 store2)) 7)
     = Some 2"
  by (simp add: store1_fields(1) donation1_fields store1_at store2_at donation2_fields
        campaign0_fields markAsCompleted_donorCount)

section \<open>Receipt numbers\<close>












lemma createDonation_doc_invalid: "\<not> Donation_validate (createDonation_doc e i u r)"
  by (simp add: Donation_validate_def createDonation_doc_def)

text \<open>
  The document of \<^verbatim>\<open>createDonation\<close> has no receipt number when it is validated, so the
  handler never stores a donation.
\<close>

lemma createDonation_rejected:
  "snd (createDonation e i u r s) = s \<and> isl (fst (createDonation e i u r s))"
  by (simp add: createDonation_def Donation_create_def createDonation_doc_invalid
        split: option.splits)










lemma empty_store_invariants:
  "stored_with_receipts store0" "receiptNumbers_unique store0"
  by (simp_all add: stored_with_receipts_def receiptNumbers_unique_def store0_fields)











end
